theory Spec2Isabelle
  imports Complex_Main "HOL-Library.AList" "HOL-Library.List_Lexorder"
begin

text \<open>
  An embedding of the mapping-specification compiler: the column sanitizer of
  \<open>utils/functions.py\<close>, the tables of \<open>core/maps.py\<close>, the loader of
  \<open>utils/file_utils.py\<close>, the validator, the four generators and the writer of
  \<open>core/functions.py\<close>, and \<open>main\<close>. Every function returns its value or the error it
  raises; what the program reads from files, the database and its libraries is a
  parameter.
\<close>

section \<open>Python values\<close>

text \<open>
  A Python \<open>str\<close> is a sequence of Unicode code points; the column sanitizer names code
  points above 255, so a string is a list of code points. \<open>ascii\<close> writes a literal.
\<close>

type_synonym pystr = "nat list"

definition ascii :: "string \<Rightarrow> pystr" where
  "ascii s = map of_char s"

text \<open>
  A cell of the mapping file as pandas hands it to the code: a \<open>str\<close>, \<open>None\<close>, the
  float \<open>nan\<close> that marks a missing value, any other float, or an int.
\<close>

datatype cell = Str pystr | NoneV | NaN | FloatV rat | IntV int

fun isinstance_float :: "cell \<Rightarrow> bool" where
  "isinstance_float NaN = True"
| "isinstance_float (FloatV _) = True"
| "isinstance_float _ = False"

fun isinstance_str :: "cell \<Rightarrow> bool" where
  "isinstance_str (Str _) = True"
| "isinstance_str _ = False"

text \<open>\<open>pd.isna\<close> on a scalar, and its negation \<open>notnull\<close>.\<close>

fun isna :: "cell \<Rightarrow> bool" where
  "isna NaN = True"
| "isna NoneV = True"
| "isna _ = False"

text \<open>
  Every \<open>raise\<close> of the program, and every exception of the interpreter that the code
  can provoke, is a value. The wrappers carry the error they re-raise.
\<close>

datatype error =
    NameError
  | AttributeError
  | TypeError
  | KeyError
  | IndexError
  | FileNotFoundError pystr
  | UnsupportedFileFormat
  | InputFileEmpty
  | InvalidTargetDataArea pystr
  | MissingRequiredColumns "pystr set"
  | InvalidSourceColumns "pystr list"
  | DataAreaNotFound pystr
  | AuditColumnsNotAList
  | AuditColumnsError error
  | TargetTableConfigError error
  | TargetSchemaError error
  | PipelineConfigError error
  | MappingConfigNoColumns pystr
  | OutputFolderError
  | WriteError
  | ProcessError error
  | MappingFileEmpty pystr
  | SourceSchemaDictEmpty

section \<open>utils/functions.py: the column sanitizer\<close>

text \<open>\<open>str.replace(c, '')\<close> for a one-character \<open>c\<close> removes every occurrence of it.\<close>

definition replace_char :: "nat \<Rightarrow> pystr \<Rightarrow> pystr" where
  "replace_char c s = filter (\<lambda>x. x \<noteq> c) s"

text \<open>
  \<open>str.strip()\<close> removes leading and trailing whitespace, that is the code points for
  which \<open>str.isspace\<close> holds.
\<close>

definition isspace :: "nat \<Rightarrow> bool" where
  "isspace c \<longleftrightarrow>
     (0x09 \<le> c \<and> c \<le> 0x0D) \<or> (0x1C \<le> c \<and> c \<le> 0x20) \<or> c = 0x85 \<or> c = 0xA0 \<or>
     c = 0x1680 \<or> (0x2000 \<le> c \<and> c \<le> 0x200A) \<or> c = 0x2028 \<or> c = 0x2029 \<or>
     c = 0x202F \<or> c = 0x205F \<or> c = 0x3000"

definition strip :: "pystr \<Rightarrow> pystr" where
  "strip s = rev (dropWhile isspace (rev (dropWhile isspace s)))"

text \<open>Step 1: \<open>[col for col in column_list if col != '']\<close>.\<close>

definition drop_empty :: "cell list \<Rightarrow> cell list" where
  "drop_empty cs = filter (\<lambda>col. col \<noteq> Str []) cs"

text \<open>
  Step 2: \<open>[col for col in ... if not (isinstance(col, float) and math.isnan(col))]\<close>.
  The module imports only \<open>logging\<close>: for an entry that is a float, the second conjunct
  is evaluated and the name \<open>math\<close> is not defined.
\<close>

fun drop_nan :: "cell list \<Rightarrow> error + cell list" where
  "drop_nan [] = Inr []"
| "drop_nan (col # cs) =
     (if isinstance_float col then Inl NameError
      else (case drop_nan cs of Inl e \<Rightarrow> Inl e | Inr r \<Rightarrow> Inr (col # r)))"

text \<open>Step 3: the four \<open>replace\<close> calls on every entry; only a \<open>str\<close> has the method.\<close>

definition replace_invisible :: "pystr \<Rightarrow> pystr" where
  "replace_invisible s =
     replace_char 0x180E (replace_char 0x2000 (replace_char 0x200B (replace_char 0xA0 s)))"

fun replace_all :: "cell list \<Rightarrow> error + cell list" where
  "replace_all [] = Inr []"
| "replace_all (Str s # cs) =
     (case replace_all cs of Inl e \<Rightarrow> Inl e | Inr r \<Rightarrow> Inr (Str (replace_invisible s) # r))"
| "replace_all (_ # cs) = Inl AttributeError"

text \<open>Step 4: \<open>[col for col in ... if col is not None]\<close>.\<close>

definition drop_none :: "cell list \<Rightarrow> cell list" where
  "drop_none cs = filter (\<lambda>col. col \<noteq> NoneV) cs"

text \<open>Step 5: \<open>[col.strip() for col in ...]\<close>.\<close>

fun strip_all :: "cell list \<Rightarrow> error + pystr list" where
  "strip_all [] = Inr []"
| "strip_all (Str s # cs) =
     (case strip_all cs of Inl e \<Rightarrow> Inl e | Inr r \<Rightarrow> Inr (strip s # r))"
| "strip_all (_ # cs) = Inl AttributeError"

text \<open>
  Step 6: \<open>[x for x in ... if not (x in seen or seen.add(x))]\<close>, the first occurrence
  of every value, in order.
\<close>

fun dedup :: "'a set \<Rightarrow> 'a list \<Rightarrow> 'a list" where
  "dedup seen [] = []"
| "dedup seen (x # xs) =
     (if x \<in> seen then dedup seen xs else x # dedup (insert x seen) xs)"

text \<open>The body of the \<open>try\<close>, then the \<open>except Exception\<close> that returns the empty list.\<close>

definition cleanse_try :: "cell list \<Rightarrow> error + pystr list" where
  "cleanse_try column_list =
     (case drop_nan (drop_empty column_list) of
        Inl e \<Rightarrow> Inl e
      | Inr l2 \<Rightarrow>
          (case replace_all l2 of
             Inl e \<Rightarrow> Inl e
           | Inr l3 \<Rightarrow>
               (case strip_all (drop_none l3) of
                  Inl e \<Rightarrow> Inl e
                | Inr l5 \<Rightarrow> Inr (dedup {} l5))))"

definition cleanse_column_list :: "cell list \<Rightarrow> pystr list" where
  "cleanse_column_list column_list =
     (case cleanse_try column_list of Inl e \<Rightarrow> [] | Inr l \<Rightarrow> l)"

section \<open>core/maps.py\<close>

text \<open>\<open>PANDAS_DATATYPE_MAP\<close>, and \<open>PANDAS_DATATYPE_MAP.get(key, 'string')\<close> on a cell.\<close>

definition PANDAS_DATATYPE_MAP :: "pystr \<rightharpoonup> pystr" where
  "PANDAS_DATATYPE_MAP = map_of
     [(ascii ''smallint'', ascii ''integer''),
      (ascii ''decimal'', ascii ''double''),
      (ascii ''varchar'', ascii ''string''),
      (ascii ''datetime'', ascii ''timestamp''),
      (ascii ''int'', ascii ''integer''),
      (ascii ''integer'', ascii ''integer''),
      (ascii ''bigint'', ascii ''long''),
      (ascii ''uniqueidentifier'', ascii ''string''),
      (ascii ''date'', ascii ''timestamp''),
      (ascii ''long'', ascii ''long''),
      (ascii ''double'', ascii ''double''),
      (ascii ''timestamp'', ascii ''timestamp'')]"

fun datatype_get :: "cell \<Rightarrow> pystr" where
  "datatype_get (Str s) =
     (case PANDAS_DATATYPE_MAP s of Some t \<Rightarrow> t | None \<Rightarrow> ascii ''string'')"
| "datatype_get _ = ascii ''string''"

definition TARGET_SOURCE_AREA_MAP :: "pystr \<rightharpoonup> pystr" where
  "TARGET_SOURCE_AREA_MAP = map_of
     [(ascii ''bronze'', ascii ''landing-zone''),
      (ascii ''silver'', ascii ''bronze''),
      (ascii ''gold'', ascii ''silver'')]"

text \<open>
  \<open>MAP_FILE_REQUIRED_COLUMNS_MAP\<close> is a dict display with three entries, two of them
  under the key \<open>'bronze'\<close>. A dict display stores its entries from left to right, so
  the third entry replaces the second; the map update below does the same.
\<close>

definition MAP_FILE_REQUIRED_COLUMNS_MAP :: "pystr \<rightharpoonup> pystr list" where
  "MAP_FILE_REQUIRED_COLUMNS_MAP = Map.empty
     (ascii ''landing-zone'' \<mapsto>
        [ascii ''Source Table Name'', ascii ''Source Column Name'',
         ascii ''Target Table Name'', ascii ''Target Column Name''],
      ascii ''bronze'' \<mapsto>
        [ascii ''Source Table Name'', ascii ''Source Column Name'',
         ascii ''Target Table Name'', ascii ''Target Column Name'',
         ascii ''Order By'', ascii ''Partition By''],
      ascii ''bronze'' \<mapsto>
        [ascii ''Source Table Name'', ascii ''Source Column Name'',
         ascii ''Target Table Name'', ascii ''Target Column Name'',
         ascii ''Order By'', ascii ''Partition By'', ascii ''Is Business Key'',
         ascii ''Data Type'', ascii ''Default Value'', ascii ''Transformation Function''])"

section \<open>The mapping file as a data frame\<close>

text \<open>
  The code reads ten columns of the mapping file, each by its header. A row keeps one
  cell for each of them; the frame keeps the headers that the file has, and a read of a
  column whose header is not among them is a \<open>KeyError\<close>, so the cell a row holds for
  an absent column is never looked at.
\<close>

record row =
  source_table_name :: cell
  source_column_name :: cell
  target_table_name :: cell
  target_column_name :: cell
  order_by :: cell
  partition_by :: cell
  is_business_key :: cell
  data_type :: cell
  default_value :: cell
  transformation_function :: cell

record dataframe =
  df_columns :: "pystr list"
  df_rows :: "row list"

text \<open>\<open>df[header]\<close>: the cells of one column, in row order.\<close>

definition series :: "dataframe \<Rightarrow> pystr \<Rightarrow> (row \<Rightarrow> cell) \<Rightarrow> error + cell list" where
  "series df header field =
     (if header \<in> set (df_columns df) then Inr (map field (df_rows df)) else Inl KeyError)"

text \<open>
  \<open>Series.unique()\<close>: the values in order of first appearance, missing values
  included. Rows whose cell in a column equals a string: \<open>df[df[header] == name]\<close>.
\<close>

definition unique :: "cell list \<Rightarrow> cell list" where
  "unique cs = dedup {} cs"

definition rows_where :: "(row \<Rightarrow> cell) \<Rightarrow> pystr \<Rightarrow> row list \<Rightarrow> row list" where
  "rows_where field name rs = filter (\<lambda>r. field r = Str name) rs"

text \<open>A resolved schema: the source table's columns with their types.\<close>

record column =
  col_name :: pystr
  col_type :: pystr

record source_schema =
  ss_domain :: pystr
  ss_table_name :: pystr
  ss_columns :: "column list"

section \<open>What the program reads from outside\<close>

text \<open>
  JSON values, for the transformation functions embedded in the mapping file and for the
  source descriptors of the generated mappings.
\<close>

datatype json =
    JNull
  | JBool bool
  | JNumber rat
  | JString pystr
  | JArray "json list"
  | JObject "(pystr \<times> json) list"

text \<open>
  The audit columns of a data area in \<open>mint_data_areas.json\<close>: the entry of an area is
  an empty object, an object without the key \<open>audit_columns\<close>, or one whose
  \<open>audit_columns\<close> is a list of columns or something that is not a list.
\<close>

datatype data_area_config =
    EmptyConfig
  | NoAuditColumns
  | AuditColumns "column list"
  | AuditNotAList

text \<open>
  The files, the database and the libraries are parameters of the model: a path is the
  list of the components that \<open>os.path.join\<close> receives; the secret store and the
  catalogue query answer together for a source table; \<open>str_accessor\<close> is pandas' check
  that a column, given by its header and its values, admits \<open>.str\<close> (it depends on the
  type that pandas gave the column when it read the file), \<open>sort_values\<close> its sort of
  rows by one column, \<open>json_loads\<close> the standard parser, \<open>None\<close> when it raises
  \<open>JSONDecodeError\<close>; \<open>makedirs\<close> and \<open>write_file\<close> say whether the output folder
  can be made and a file in it written, and \<open>str_of_value\<close> is the text that an
  f-string puts for a cell that is not a string. A schema file and the file of data
  areas are read as the descriptors they hold.
\<close>

record env =
  path_exists :: "pystr \<Rightarrow> bool"
  read_excel :: "pystr \<Rightarrow> error + dataframe"
  read_csv :: "pystr \<Rightarrow> error + dataframe"
  get_sql_table_schema :: "pystr \<Rightarrow> error + column list"
  load_schema_file :: "pystr list \<Rightarrow> error + source_schema"
  load_mint_data_areas :: "error + (pystr \<rightharpoonup> data_area_config)"
  str_accessor :: "pystr \<Rightarrow> cell list \<Rightarrow> bool"
  sort_values :: "(row \<Rightarrow> cell) \<Rightarrow> row list \<Rightarrow> error + row list"
  json_loads :: "pystr \<Rightarrow> json option"
  makedirs :: "pystr list \<Rightarrow> bool"
  write_file :: "pystr list \<Rightarrow> bool"
  str_of_value :: "cell \<Rightarrow> pystr"

definition OUTPUT_FOLDER :: pystr where
  "OUTPUT_FOLDER = ascii ''.'' @ [0x5C] @ ascii ''config'' @ [0x5C]"

section \<open>utils/file\_utils.py\<close>

definition endswith :: "pystr \<Rightarrow> pystr \<Rightarrow> bool" where
  "endswith s suffix \<longleftrightarrow> take (length suffix) (rev s) = rev suffix"

text \<open>\<open>DataFrame.empty\<close>: no rows or no columns.\<close>

definition df_empty :: "dataframe \<Rightarrow> bool" where
  "df_empty df \<longleftrightarrow> df_rows df = [] \<or> df_columns df = []"

definition load_file_to_dataframe :: "env \<Rightarrow> pystr \<Rightarrow> pystr \<Rightarrow> error + dataframe" where
  "load_file_to_dataframe E input_file file_type =
     (if \<not> path_exists E input_file then Inl (FileNotFoundError input_file)
      else
        (case (if endswith input_file (ascii ''.xlsx'') then read_excel E input_file
               else if endswith input_file (ascii ''.csv'') then read_csv E input_file
               else Inl UnsupportedFileFormat) of
           Inl e \<Rightarrow> Inl e
         | Inr Input_file_df \<Rightarrow>
             if df_empty Input_file_df then Inl InputFileEmpty else Inr Input_file_df))"

section \<open>core/functions.py: validation\<close>

definition get_required_columns_list :: "pystr \<Rightarrow> error + pystr list" where
  "get_required_columns_list target_data_area =
     (case MAP_FILE_REQUIRED_COLUMNS_MAP target_data_area of
        Some required_columns \<Rightarrow> Inr required_columns
      | None \<Rightarrow> Inl (InvalidTargetDataArea target_data_area))"

definition generate_source_schema_config ::
  "env \<Rightarrow> pystr \<Rightarrow> pystr \<Rightarrow> pystr \<Rightarrow> error + source_schema" where
  "generate_source_schema_config E domain target_data_area source_table =
     (let source_data_area = TARGET_SOURCE_AREA_MAP target_data_area in
      if source_data_area = Some (ascii ''landing-zone'') then
        (case get_sql_table_schema E source_table of
           Inl e \<Rightarrow> Inl e
         | Inr source_schema_cols \<Rightarrow>
             Inr \<lparr>ss_domain = domain, ss_table_name = source_table,
                  ss_columns = source_schema_cols\<rparr>)
      else if source_data_area = Some (ascii ''bronze'') \<or>
              source_data_area = Some (ascii ''silver'') then
        load_schema_file E
          [OUTPUT_FOLDER, ascii ''domains'', domain, the source_data_area,
           the source_data_area @ ascii ''_schema_'' @ source_table @ ascii ''.json'']
      else Inl (InvalidTargetDataArea target_data_area))"

text \<open>
  The dict comprehension that resolves a schema for every source table, in list order;
  the first failure leaves it.
\<close>

fun resolve_schemas ::
  "env \<Rightarrow> pystr \<Rightarrow> pystr \<Rightarrow> (pystr \<times> source_schema) list \<Rightarrow> pystr list \<Rightarrow>
     error + (pystr \<times> source_schema) list" where
  "resolve_schemas E domain target_data_area d [] = Inr d"
| "resolve_schemas E domain target_data_area d (source_table # ts) =
     (case generate_source_schema_config E domain target_data_area source_table of
        Inl e \<Rightarrow> Inl e
      | Inr schema \<Rightarrow>
          resolve_schemas E domain target_data_area (AList.update source_table schema d) ts)"

text \<open>
  One round of the loop over the source tables: the source columns of the rows that name
  the table, cleansed, that are not columns of the table's resolved schema. A table
  without an entry in the dictionary is a \<open>KeyError\<close>.
\<close>

definition invalid_columns_of ::
  "dataframe \<Rightarrow> (pystr \<times> source_schema) list \<Rightarrow> pystr \<Rightarrow> error + pystr list" where
  "invalid_columns_of df source_tables_schema_dict source_table =
     (if ascii ''Source Table Name'' \<notin> set (df_columns df) \<or>
         ascii ''Source Column Name'' \<notin> set (df_columns df) then Inl KeyError
      else
      let source_columns_list =
            cleanse_column_list
              (unique (map source_column_name
                 (rows_where source_table_name source_table (df_rows df))))
      in case map_of source_tables_schema_dict source_table of
           None \<Rightarrow> Inl KeyError
         | Some schema \<Rightarrow>
             (let source_schema_columns_list = map col_name (ss_columns schema)
              in Inr (filter (\<lambda>col. col \<notin> set source_schema_columns_list)
                        source_columns_list)))"

fun invalid_source_columns ::
  "dataframe \<Rightarrow> (pystr \<times> source_schema) list \<Rightarrow> pystr list \<Rightarrow> pystr list \<Rightarrow>
     error + pystr list" where
  "invalid_source_columns df d invalid [] = Inr invalid"
| "invalid_source_columns df d invalid (source_table # ts) =
     (case invalid_columns_of df d source_table of
        Inl e \<Rightarrow> Inl e
      | Inr found \<Rightarrow> invalid_source_columns df d (invalid @ found) ts)"

definition validate_mapping_file ::
  "env \<Rightarrow> pystr \<Rightarrow> pystr \<Rightarrow> pystr \<Rightarrow> pystr \<Rightarrow>
     error + dataframe \<times> (pystr \<times> source_schema) list" where
  "validate_mapping_file E mapping_file domain target_data_area file_type =
     (case load_file_to_dataframe E mapping_file file_type of
        Inl e \<Rightarrow> Inl e
      | Inr mapping_file_df \<Rightarrow>
     (case get_required_columns_list target_data_area of
        Inl e \<Rightarrow> Inl e
      | Inr required_columns_list \<Rightarrow>
     (let missing_columns_list =
            set required_columns_list - set (df_columns mapping_file_df)
      in if missing_columns_list \<noteq> {} then Inl (MissingRequiredColumns missing_columns_list)
      else
     (case series mapping_file_df (ascii ''Source Table Name'') source_table_name of
        Inl e \<Rightarrow> Inl e
      | Inr source_tables \<Rightarrow>
     (let source_tables_list = cleanse_column_list (unique source_tables)
      in case resolve_schemas E domain target_data_area [] source_tables_list of
        Inl e \<Rightarrow> Inl e
      | Inr source_tables_schema_dict \<Rightarrow>
     (case invalid_source_columns mapping_file_df source_tables_schema_dict []
             source_tables_list of
        Inl e \<Rightarrow> Inl e
      | Inr invalid_source_columns_list \<Rightarrow>
          if invalid_source_columns_list \<noteq> []
          then Inl (InvalidSourceColumns invalid_source_columns_list)
          else Inr (mapping_file_df, source_tables_schema_dict)))))))"

section \<open>core/functions.py: the generators\<close>

text \<open>The first entry of a list, as \<open>xs[0]\<close> gives it.\<close>

definition first_item :: "'a list \<Rightarrow> error + 'a" where
  "first_item xs = (case xs of [] \<Rightarrow> Inl IndexError | x # _ \<Rightarrow> Inr x)"

definition get_data_area_audit_columns :: "env \<Rightarrow> pystr \<Rightarrow> error + column list" where
  "get_data_area_audit_columns E target_data_area =
     (case load_mint_data_areas E of
        Inl e \<Rightarrow> Inl (AuditColumnsError e)
      | Inr mint_data_areas_config \<Rightarrow>
          (case mint_data_areas_config target_data_area of
             None \<Rightarrow> Inl (AuditColumnsError (DataAreaNotFound target_data_area))
           | Some EmptyConfig \<Rightarrow> Inl (AuditColumnsError (DataAreaNotFound target_data_area))
           | Some NoAuditColumns \<Rightarrow> Inr []
           | Some (AuditColumns audit_columns) \<Rightarrow> Inr audit_columns
           | Some AuditNotAList \<Rightarrow> Inl (AuditColumnsError AuditColumnsNotAList)))"

record target_tables_config =
  tt_action :: pystr
  tt_target_data_area :: pystr
  tt_config_storage_account :: pystr
  tt_key_vault_name :: pystr
  tt_target_table_list :: "pystr list"

definition generate_target_table_config ::
  "pystr \<Rightarrow> dataframe \<Rightarrow> error + target_tables_config" where
  "generate_target_table_config target_data_area mapping_file_df =
     (let processing_action =
            (if target_data_area = ascii ''landing-zone'' \<or> target_data_area = ascii ''bronze''
             then ascii ''ingest'' else ascii ''merge'')
      in case series mapping_file_df (ascii ''Target Table Name'') target_table_name of
           Inl e \<Rightarrow> Inl (TargetTableConfigError e)
         | Inr target_tables \<Rightarrow>
             Inr \<lparr>tt_action = processing_action,
                  tt_target_data_area = target_data_area,
                  tt_config_storage_account = ascii ''mintetl[env]configeus'',
                  tt_key_vault_name = ascii ''mintetl[env]keyvaulteus'',
                  tt_target_table_list = cleanse_column_list (unique target_tables)\<rparr>)"

subsection \<open>generate\_target\_schema\_config\<close>

record target_schema =
  ts_domain :: pystr
  ts_table_name :: pystr
  ts_sort_columns :: "pystr list"
  ts_partition_columns :: "pystr list"
  ts_columns :: "column list"

text \<open>
  \<open>table_mapping_df.loc[:, header] = table_mapping_df[header].str.strip()\<close>: the
  accessor is refused for a column that does not hold strings; otherwise every string of
  the column is stripped and every other value becomes missing.
\<close>

fun str_strip :: "cell \<Rightarrow> cell" where
  "str_strip (Str s) = Str (strip s)"
| "str_strip _ = NaN"

definition strip_column ::
  "env \<Rightarrow> pystr list \<Rightarrow> pystr \<Rightarrow> (row \<Rightarrow> cell) \<Rightarrow> ((cell \<Rightarrow> cell) \<Rightarrow> row \<Rightarrow> row) \<Rightarrow> row list \<Rightarrow>
     error + row list" where
  "strip_column E headers header field field_update table_rows =
     (if header \<notin> set headers then Inl KeyError
      else if \<not> str_accessor E header (map field table_rows) then Inl AttributeError
      else Inr (map (field_update str_strip) table_rows))"

definition strip_name_columns :: "env \<Rightarrow> pystr list \<Rightarrow> row list \<Rightarrow> error + row list" where
  "strip_name_columns E headers table_rows =
     (case strip_column E headers (ascii ''Source Table Name'')
             source_table_name source_table_name_update table_rows of
        Inl e \<Rightarrow> Inl e
      | Inr t1 \<Rightarrow>
     (case strip_column E headers (ascii ''Source Column Name'')
             source_column_name source_column_name_update t1 of
        Inl e \<Rightarrow> Inl e
      | Inr t2 \<Rightarrow>
     (case strip_column E headers (ascii ''Target Table Name'')
             target_table_name target_table_name_update t2 of
        Inl e \<Rightarrow> Inl e
      | Inr t3 \<Rightarrow>
          strip_column E headers (ascii ''Target Column Name'')
            target_column_name target_column_name_update t3)))"

text \<open>
  The schema entry of one row: the cleansed target column with the mapped type of the
  row's declared data type when the row has no source column, and of the source schema's
  column of that name otherwise.
\<close>

definition target_column_schema ::
  "pystr list \<Rightarrow> source_schema \<Rightarrow> row \<Rightarrow> error + column" where
  "target_column_schema headers curr_source_schema_dict r =
     (case first_item (cleanse_column_list [target_column_name r]) of
        Inl e \<Rightarrow> Inl e
      | Inr target_column \<Rightarrow>
          if isna (source_column_name r) then
            (if ascii ''Data Type'' \<notin> set headers then Inl KeyError
             else Inr \<lparr>col_name = target_column, col_type = datatype_get (data_type r)\<rparr>)
          else
            (case first_item (cleanse_column_list [source_column_name r]) of
               Inl e \<Rightarrow> Inl e
             | Inr source_column \<Rightarrow>
                 (case first_item
                         (filter (\<lambda>col. col_name col = source_column)
                            (ss_columns curr_source_schema_dict)) of
                    Inl e \<Rightarrow> Inl e
                  | Inr source_column_schema \<Rightarrow>
                      Inr \<lparr>col_name = target_column,
                           col_type = datatype_get (Str (col_type source_column_schema))\<rparr>)))"

text \<open>
  The loop over the rows of one target table. \<open>iterrows\<close> yields the rows as they were
  when the loop began; the frame that the body strips is carried along as \<open>table_rows\<close>.
\<close>

fun target_columns_loop ::
  "env \<Rightarrow> pystr list \<Rightarrow> source_schema \<Rightarrow> row list \<Rightarrow> column list \<Rightarrow> row list \<Rightarrow>
     error + column list" where
  "target_columns_loop E headers schema table_rows target_column_schema_list [] =
     Inr target_column_schema_list"
| "target_columns_loop E headers schema table_rows target_column_schema_list (r # rs) =
     (case strip_name_columns E headers table_rows of
        Inl e \<Rightarrow> Inl e
      | Inr table_rows' \<Rightarrow>
          (case target_column_schema headers schema r of
             Inl e \<Rightarrow> Inl e
           | Inr c \<Rightarrow>
               target_columns_loop E headers schema table_rows'
                 (target_column_schema_list @ [c]) rs))"

text \<open>
  The target columns of the rows with a value in an ordering column, sorted by that
  value and cleansed: \<open>sort_columns\<close> from \<open>Order By\<close>, \<open>partition_columns\<close> from
  \<open>Partition By\<close>.
\<close>

definition sorted_target_columns ::
  "env \<Rightarrow> pystr list \<Rightarrow> pystr \<Rightarrow> (row \<Rightarrow> cell) \<Rightarrow> row list \<Rightarrow> error + pystr list" where
  "sorted_target_columns E headers header field table_rows =
     (if header \<notin> set headers then Inl KeyError
      else
        (case sort_values E field (filter (\<lambda>r. \<not> isna (field r)) table_rows) of
           Inl e \<Rightarrow> Inl e
         | Inr sorted_rows \<Rightarrow>
             if ascii ''Target Column Name'' \<notin> set headers then Inl KeyError
             else Inr (cleanse_column_list (map target_column_name sorted_rows))))"

text \<open>\<open>source_schema_dict[key]\<close> for a key that is a cell of the mapping file.\<close>

definition schema_lookup ::
  "(pystr \<times> source_schema) list \<Rightarrow> cell \<Rightarrow> error + source_schema" where
  "schema_lookup source_schema_dict key =
     (case key of
        Str s \<Rightarrow> (case map_of source_schema_dict s of None \<Rightarrow> Inl KeyError | Some d \<Rightarrow> Inr d)
      | _ \<Rightarrow> Inl KeyError)"

text \<open>The body of the loop over the target tables: the schema of one target table.\<close>

definition target_table_schema ::
  "env \<Rightarrow> pystr \<Rightarrow> pystr \<Rightarrow> (pystr \<times> source_schema) list \<Rightarrow> dataframe \<Rightarrow> pystr \<Rightarrow>
     error + target_schema" where
  "target_table_schema E domain target_data_area source_schema_dict mapping_file_df target_table =
     (let headers = df_columns mapping_file_df;
          table_mapping_df = rows_where target_table_name target_table (df_rows mapping_file_df)
      in
      if ascii ''Source Table Name'' \<notin> set headers then Inl KeyError
      else
     (case first_item (unique (map source_table_name table_mapping_df)) of
        Inl e \<Rightarrow> Inl e
      | Inr source_table \<Rightarrow>
     (case schema_lookup source_schema_dict source_table of
        Inl e \<Rightarrow> Inl e
      | Inr curr_source_schema_dict \<Rightarrow>
     (case sorted_target_columns E headers (ascii ''Order By'') order_by table_mapping_df of
        Inl e \<Rightarrow> Inl e
      | Inr sort_columns_list \<Rightarrow>
     (case sorted_target_columns E headers (ascii ''Partition By'') partition_by
             table_mapping_df of
        Inl e \<Rightarrow> Inl e
      | Inr partition_columns_list \<Rightarrow>
     (let merge = (target_data_area = ascii ''silver'' \<or> target_data_area = ascii ''gold'');
          sort_columns_list' =
            (if merge then sort_columns_list @ [ascii ''MergeKey''] else sort_columns_list);
          target_column_schema_list =
            (if merge then [\<lparr>col_name = ascii ''MergeKey'', col_type = ascii ''string''\<rparr>]
             else []);
          partition_columns_list' =
            (if merge then partition_columns_list
             else partition_columns_list @ [ascii ''IngestDate''])
      in
     (case target_columns_loop E headers curr_source_schema_dict table_mapping_df
             target_column_schema_list table_mapping_df of
        Inl e \<Rightarrow> Inl e
      | Inr target_column_schema_list' \<Rightarrow>
     (case get_data_area_audit_columns E target_data_area of
        Inl e \<Rightarrow> Inl e
      | Inr target_area_audit_columns \<Rightarrow>
          Inr \<lparr>ts_domain = domain,
               ts_table_name = target_table,
               ts_sort_columns = sort_columns_list',
               ts_partition_columns = partition_columns_list',
               ts_columns = target_column_schema_list' @ target_area_audit_columns\<rparr>))))))))"

fun target_tables_loop ::
  "env \<Rightarrow> pystr \<Rightarrow> pystr \<Rightarrow> (pystr \<times> source_schema) list \<Rightarrow> dataframe \<Rightarrow>
     (pystr \<times> target_schema) list \<Rightarrow> pystr list \<Rightarrow> error + (pystr \<times> target_schema) list" where
  "target_tables_loop E domain target_data_area sd df target_tables_schema_dict [] =
     Inr target_tables_schema_dict"
| "target_tables_loop E domain target_data_area sd df target_tables_schema_dict (t # ts) =
     (case target_table_schema E domain target_data_area sd df t of
        Inl e \<Rightarrow> Inl e
      | Inr target_schema_header \<Rightarrow>
          target_tables_loop E domain target_data_area sd df
            (AList.update t target_schema_header target_tables_schema_dict) ts)"

text \<open>The \<open>try\<close> of the function, and the \<open>except\<close> that wraps whatever it raised.\<close>

definition generate_target_schema_config ::
  "env \<Rightarrow> pystr \<Rightarrow> pystr \<Rightarrow> (pystr \<times> source_schema) list \<Rightarrow> dataframe \<Rightarrow>
     error + (pystr \<times> target_schema) list" where
  "generate_target_schema_config E domain target_data_area source_schema_dict mapping_file_df =
     (case
        (case series mapping_file_df (ascii ''Target Table Name'') target_table_name of
           Inl e \<Rightarrow> Inl e
         | Inr target_tables \<Rightarrow>
             target_tables_loop E domain target_data_area source_schema_dict mapping_file_df []
               (cleanse_column_list (unique target_tables)))
      of Inl e \<Rightarrow> Inl (TargetSchemaError e)
       | Inr target_tables_schema_dict \<Rightarrow> Inr target_tables_schema_dict)"

subsection \<open>generate\_pipeline\_config\<close>

record pipeline_linkage =
  pl_source_data_area :: pystr
  pl_source_table_path :: pystr
  pl_source_table_name :: pystr
  pl_target_data_area :: pystr
  pl_target_table_path :: pystr
  pl_target_table_name :: pystr

text \<open>
  \<open>mapping_file_df[['Source Table Name', 'Target Table Name']].drop_duplicates().dropna()\<close>:
  the pairs of the two cells of every row, the first of equal pairs kept, then the pairs
  with a missing value dropped.
\<close>

definition table_pairs :: "dataframe \<Rightarrow> error + (cell \<times> cell) list" where
  "table_pairs df =
     (if ascii ''Source Table Name'' \<notin> set (df_columns df) \<or>
         ascii ''Target Table Name'' \<notin> set (df_columns df) then Inl KeyError
      else Inr (filter (\<lambda>(s, t). \<not> isna s \<and> \<not> isna t)
                  (dedup {} (map (\<lambda>r. (source_table_name r, target_table_name r))
                     (df_rows df)))))"

definition pipeline_entry :: "pystr \<Rightarrow> cell \<times> cell \<Rightarrow> error + pystr \<times> pipeline_linkage" where
  "pipeline_entry target_data_area p =
     (case first_item (cleanse_column_list [fst p]) of
        Inl e \<Rightarrow> Inl e
      | Inr source_table \<Rightarrow>
     (case first_item (cleanse_column_list [snd p]) of
        Inl e \<Rightarrow> Inl e
      | Inr target_table \<Rightarrow>
     (case TARGET_SOURCE_AREA_MAP target_data_area of
        None \<Rightarrow> Inl KeyError
      | Some source_data_area \<Rightarrow>
          Inr (target_table,
               \<lparr>pl_source_data_area = source_data_area,
                pl_source_table_path = ascii ''cura'',
                pl_source_table_name = source_table,
                pl_target_data_area = target_data_area,
                pl_target_table_path = ascii ''cura'',
                pl_target_table_name = target_table\<rparr>))))"

text \<open>The loop assigns \<open>pipeline_configurations_dict[target_table_name]\<close> for every pair.\<close>

fun pipeline_loop ::
  "pystr \<Rightarrow> (pystr \<times> pipeline_linkage) list \<Rightarrow> (cell \<times> cell) list \<Rightarrow>
     error + (pystr \<times> pipeline_linkage) list" where
  "pipeline_loop target_data_area pipeline_configurations_dict [] =
     Inr pipeline_configurations_dict"
| "pipeline_loop target_data_area pipeline_configurations_dict (p # ps) =
     (case pipeline_entry target_data_area p of
        Inl e \<Rightarrow> Inl e
      | Inr (target_table, linkage) \<Rightarrow>
          pipeline_loop target_data_area
            (AList.update target_table linkage pipeline_configurations_dict) ps)"

definition generate_pipeline_config ::
  "pystr \<Rightarrow> pystr \<Rightarrow> dataframe \<Rightarrow> error + (pystr \<times> pipeline_linkage) list" where
  "generate_pipeline_config domain target_data_area mapping_file_df =
     (case
        (case table_pairs mapping_file_df of
           Inl e \<Rightarrow> Inl e
         | Inr filtered_df \<Rightarrow> pipeline_loop target_data_area [] filtered_df)
      of Inl e \<Rightarrow> Inl (PipelineConfigError e)
       | Inr pipeline_configurations_dict \<Rightarrow> Inr pipeline_configurations_dict)"

subsection \<open>generate\_mapping\_config\<close>

record column_mapping =
  cm_name :: pystr
  cm_type :: pystr
  cm_source :: "(pystr \<times> json) list"

record mapping_config =
  mc_domain :: pystr
  mc_table_name :: pystr
  mc_source :: pystr
  mc_target :: pystr
  mc_columns :: "column_mapping list"

definition affirmative_responses :: "pystr set" where
  "affirmative_responses =
     {ascii ''y'', ascii ''yes'', ascii ''true'', ascii ''t'', ascii ''1'', ascii ''x''}"

text \<open>
  \<open>str.lower()\<close>, on the letters A to Z. Python lower-cases letters outside ASCII as
  well; none of them becomes a character of an affirmative response, so the membership
  test below is the one Python computes.
\<close>

definition lower :: "pystr \<Rightarrow> pystr" where
  "lower s = map (\<lambda>c. if 0x41 \<le> c \<and> c \<le> 0x5A then c + 0x20 else c) s"

text \<open>
  \<open>Series.str.lower().isin(affirmative_responses)\<close> on one cell: a value that is not a
  string is missing after \<open>.str.lower()\<close> and not in the set.
\<close>

fun is_affirmative :: "cell \<Rightarrow> bool" where
  "is_affirmative (Str s) = (lower s \<in> affirmative_responses)"
| "is_affirmative _ = False"

definition merge_key_column :: "pystr list \<Rightarrow> column_mapping" where
  "merge_key_column business_key_columns_list =
     \<lparr>cm_name = ascii ''MergeKey'',
      cm_type = ascii ''string'',
      cm_source =
        [(ascii ''function'', JString (ascii ''key_hash'')),
         (ascii ''params'',
            JObject [(ascii ''column_names'', JArray (map JString business_key_columns_list))]),
         (ascii ''type'', JString (ascii ''string''))]\<rparr>"

text \<open>
  The columns that the header of a target table starts with: the \<open>MergeKey\<close> column
  when the mapping file has the column \<open>Is Business Key\<close>, nothing otherwise.
\<close>

definition initial_columns :: "env \<Rightarrow> pystr list \<Rightarrow> row list \<Rightarrow> error + column_mapping list" where
  "initial_columns E headers filtered_mapping_df =
     (if ascii ''Is Business Key'' \<in> set headers then
        (if \<not> str_accessor E (ascii ''Is Business Key'')
                  (map is_business_key filtered_mapping_df) then Inl AttributeError
         else if ascii ''Target Column Name'' \<notin> set headers then Inl KeyError
         else
           (let business_key_columns_list =
                  cleanse_column_list
                    (map target_column_name
                       (filter (\<lambda>r. is_affirmative (is_business_key r)) filtered_mapping_df))
            in Inr [merge_key_column business_key_columns_list]))
      else Inr [])"

text \<open>
  The body of the loop over the rows of a target table: a column mapping, or nothing
  when the \<open>except json.JSONDecodeError\<close> clause runs \<open>continue\<close>.
\<close>

definition usable :: "cell \<Rightarrow> bool" where
  "usable c = (case c of Str s \<Rightarrow> strip s \<noteq> [] | _ \<Rightarrow> False)"

definition column_mapping_of ::
  "env \<Rightarrow> pystr list \<Rightarrow> (pystr \<times> source_schema) list \<Rightarrow> row \<Rightarrow>
     error + column_mapping option" where
  "column_mapping_of E headers source_schema_dict target_column_row =
     (if ascii ''Target Column Name'' \<notin> set headers then Inl KeyError
      else
     (case target_column_name target_column_row of
        Str tc \<Rightarrow>
     (let target_column = strip tc in
      if ascii ''Source Column Name'' \<notin> set headers \<or>
         ascii ''Source Table Name'' \<notin> set headers then Inl KeyError
      else
     (let source_column_cell = source_column_name target_column_row;
          source_table_cell = source_table_name target_column_row;
          target_col_data_type =
            (if ascii ''Data Type'' \<in> set headers
             then datatype_get
                    (case data_type target_column_row of Str d \<Rightarrow> Str (strip d) | c \<Rightarrow> c)
             else ascii ''string'')
      in
      if usable source_column_cell \<and> usable source_table_cell then
        (case first_item (cleanse_column_list [source_column_cell]) of
           Inl e \<Rightarrow> Inl e
         | Inr source_column \<Rightarrow>
        (case first_item (cleanse_column_list [source_table_cell]) of
           Inl e \<Rightarrow> Inl e
         | Inr source_table \<Rightarrow>
        (case first_item
                (map col_type
                   (filter (\<lambda>col. col_name col = source_column)
                      (case map_of source_schema_dict source_table of
                         None \<Rightarrow> []
                       | Some schema \<Rightarrow> ss_columns schema))) of
           Inl e \<Rightarrow> Inl e
         | Inr source_schema_data_type \<Rightarrow>
             (let target_col_data_type' = datatype_get (Str source_schema_data_type)
              in Inr (Some \<lparr>cm_name = target_column,
                            cm_type = target_col_data_type',
                            cm_source =
                              [(ascii ''name'', JString source_column),
                               (ascii ''type'', JString target_col_data_type')]\<rparr>)))))
      else if ascii ''Transformation Function'' \<in> set headers then
        (case transformation_function target_column_row of
           Str tf \<Rightarrow>
             if tf \<noteq> [] then
               (case json_loads E tf of
                  None \<Rightarrow> Inr None
                | Some (JObject source_dict) \<Rightarrow>
                    Inr (Some \<lparr>cm_name = target_column,
                              cm_type = target_col_data_type,
                              cm_source =
                                AList.update (ascii ''type'') (JString (ascii ''string''))
                                  source_dict\<rparr>)
                | Some _ \<Rightarrow> Inl TypeError)
             else Inr (Some \<lparr>cm_name = target_column, cm_type = target_col_data_type,
                             cm_source = []\<rparr>)
         | _ \<Rightarrow> Inr (Some \<lparr>cm_name = target_column, cm_type = target_col_data_type,
                           cm_source = []\<rparr>))
      else Inr (Some \<lparr>cm_name = target_column, cm_type = target_col_data_type,
                      cm_source = []\<rparr>)))
      | _ \<Rightarrow> Inl AttributeError))"

fun mapping_rows_loop ::
  "env \<Rightarrow> pystr list \<Rightarrow> (pystr \<times> source_schema) list \<Rightarrow> column_mapping list \<Rightarrow> row list \<Rightarrow>
     error + column_mapping list" where
  "mapping_rows_loop E headers sd cols [] = Inr cols"
| "mapping_rows_loop E headers sd cols (r # rs) =
     (case column_mapping_of E headers sd r of
        Inl e \<Rightarrow> Inl e
      | Inr None \<Rightarrow> mapping_rows_loop E headers sd cols rs
      | Inr (Some column_mapping_dict) \<Rightarrow>
          mapping_rows_loop E headers sd (cols @ [column_mapping_dict]) rs)"

text \<open>The body of the loop over the target tables: the mapping of one target table.\<close>

definition table_mapping_config ::
  "env \<Rightarrow> pystr \<Rightarrow> pystr \<Rightarrow> (pystr \<times> source_schema) list \<Rightarrow> dataframe \<Rightarrow> pystr \<Rightarrow>
     error + mapping_config" where
  "table_mapping_config E domain target_data_area source_schema_dict mapping_file_df target_table =
     (case TARGET_SOURCE_AREA_MAP target_data_area of
        None \<Rightarrow> Inl KeyError
      | Some source_data_area \<Rightarrow>
     (let headers = df_columns mapping_file_df;
          filtered_mapping_df =
            rows_where target_table_name target_table (df_rows mapping_file_df)
      in
     (case initial_columns E headers filtered_mapping_df of
        Inl e \<Rightarrow> Inl e
      | Inr cols \<Rightarrow>
     (case mapping_rows_loop E headers source_schema_dict cols filtered_mapping_df of
        Inl e \<Rightarrow> Inl e
      | Inr cols' \<Rightarrow>
          if cols' = [] then Inl (MappingConfigNoColumns target_table)
          else Inr \<lparr>mc_domain = domain,
                    mc_table_name = target_table,
                    mc_source = source_data_area,
                    mc_target = target_data_area,
                    mc_columns = cols'\<rparr>))))"

fun mapping_tables_loop ::
  "env \<Rightarrow> pystr \<Rightarrow> pystr \<Rightarrow> (pystr \<times> source_schema) list \<Rightarrow> dataframe \<Rightarrow>
     (pystr \<times> mapping_config) list \<Rightarrow> pystr list \<Rightarrow> error + (pystr \<times> mapping_config) list" where
  "mapping_tables_loop E domain target_data_area sd df mapping_config_dict [] =
     Inr mapping_config_dict"
| "mapping_tables_loop E domain target_data_area sd df mapping_config_dict (t # ts) =
     (case table_mapping_config E domain target_data_area sd df t of
        Inl e \<Rightarrow> Inl e
      | Inr mapping_config_header \<Rightarrow>
          mapping_tables_loop E domain target_data_area sd df
            (AList.update t mapping_config_header mapping_config_dict) ts)"

definition generate_mapping_config ::
  "env \<Rightarrow> pystr \<Rightarrow> pystr \<Rightarrow> (pystr \<times> source_schema) list \<Rightarrow> dataframe \<Rightarrow>
     error + (pystr \<times> mapping_config) list" where
  "generate_mapping_config E domain target_data_area source_schema_dict mapping_file_df =
     (case series mapping_file_df (ascii ''Target Table Name'') target_table_name of
        Inl e \<Rightarrow> Inl e
      | Inr target_tables \<Rightarrow>
          mapping_tables_loop E domain target_data_area source_schema_dict mapping_file_df []
            (cleanse_column_list (unique target_tables)))"

section \<open>core/functions.py: writing the artifacts\<close>

text \<open>
  The artifacts that a run writes, and the files written so far: the path of each, as
  the components that \<open>os.path.join\<close> receives, with what was written there last. The
  further keys of a source schema that was loaded from a file, which the code does not
  read, are not kept.
\<close>

datatype artifact =
    TargetTablesFile target_tables_config
  | SourceSchemaFile source_schema
  | TargetSchemaFile target_schema
  | PipelineFile pipeline_linkage
  | MappingFile mapping_config

type_synonym files = "(pystr list \<times> artifact) list"

definition write_config_file ::
  "env \<Rightarrow> files \<Rightarrow> pystr \<Rightarrow> pystr \<Rightarrow> pystr \<Rightarrow> artifact \<Rightarrow> error + files" where
  "write_config_file E fs domain target_data_area file_name config_json =
     (let output_folder = [OUTPUT_FOLDER, ascii ''domains'', domain, target_data_area];
          file_path = output_folder @ [file_name]
      in if \<not> makedirs E output_folder then Inl OutputFolderError
         else if \<not> write_file E file_path then Inl WriteError
         else Inr (AList.update file_path config_json fs))"

text \<open>\<open>f"{value}"\<close> for a cell of the mapping file.\<close>

definition format_cell :: "env \<Rightarrow> cell \<Rightarrow> pystr" where
  "format_cell E c = (case c of Str s \<Rightarrow> s | _ \<Rightarrow> str_of_value E c)"

text \<open>
  The loops of \<open>process_mapping_file\<close> carry the files written and the names collected
  in \<open>output_config_files\<close>; on an error the files written before it stay.
\<close>

fun source_schema_loop ::
  "env \<Rightarrow> pystr \<Rightarrow> pystr \<Rightarrow> dataframe \<Rightarrow> files \<Rightarrow> pystr list \<Rightarrow>
     (pystr \<times> source_schema) list \<Rightarrow> files \<times> (error + pystr list)" where
  "source_schema_loop E domain area df fs output_config_files [] =
     (fs, Inr output_config_files)"
| "source_schema_loop E domain area df fs output_config_files ((source_table, schema) # rest) =
     (if ascii ''Source Table Name'' \<notin> set (df_columns df) \<or>
         ascii ''Target Table Name'' \<notin> set (df_columns df) then (fs, Inl KeyError)
      else
     (case first_item
             (unique (map target_table_name
                (rows_where source_table_name source_table (df_rows df)))) of
        Inl e \<Rightarrow> (fs, Inl e)
      | Inr target_table \<Rightarrow>
     (case TARGET_SOURCE_AREA_MAP area of
        None \<Rightarrow> (fs, Inl KeyError)
      | Some source_data_area \<Rightarrow>
     (let schema' =
            (if source_data_area = ascii ''landing-zone''
             then schema\<lparr>ss_columns :=
                    map (\<lambda>col. col\<lparr>col_type := ascii ''string''\<rparr>) (ss_columns schema)\<rparr>
             else schema);
          source_schema_config_filename =
            source_data_area @ ascii ''_schema_'' @ format_cell E target_table @ ascii ''.json''
      in case write_config_file E fs domain area source_schema_config_filename
                (SourceSchemaFile schema') of
           Inl e \<Rightarrow> (fs, Inl e)
         | Inr fs' \<Rightarrow>
             source_schema_loop E domain area df fs'
               (output_config_files @ [source_schema_config_filename]) rest))))"

fun write_configs_loop ::
  "env \<Rightarrow> pystr \<Rightarrow> pystr \<Rightarrow> pystr \<Rightarrow> files \<Rightarrow> pystr list \<Rightarrow> (pystr \<times> artifact) list \<Rightarrow>
     files \<times> (error + pystr list)" where
  "write_configs_loop E domain area kind fs output_config_files [] =
     (fs, Inr output_config_files)"
| "write_configs_loop E domain area kind fs output_config_files ((target_table, config) # rest) =
     (let config_filename = area @ kind @ target_table @ ascii ''.json''
      in case write_config_file E fs domain area config_filename config of
           Inl e \<Rightarrow> (fs, Inl e)
         | Inr fs' \<Rightarrow>
             write_configs_loop E domain area kind fs'
               (output_config_files @ [config_filename]) rest)"

text \<open>
  The body of the \<open>try\<close> of \<open>process_mapping_file\<close>. The copy of the dictionary of
  schemas that the generators receive is the dictionary as validation returned it; the
  test for an empty mapping before a mapping is written never holds, a mapping having
  its five keys.
\<close>

definition process_try ::
  "env \<Rightarrow> pystr \<Rightarrow> pystr \<Rightarrow> dataframe \<Rightarrow> (pystr \<times> source_schema) list \<Rightarrow> files \<Rightarrow>
     files \<times> (error + pystr list)" where
  "process_try E domain area mapping_file_df source_tables_schema_dict fs0 =
     (case generate_target_table_config area mapping_file_df of
        Inl e \<Rightarrow> (fs0, Inl e)
      | Inr target_tables_dict \<Rightarrow>
     (let target_tables_config_filename = area @ ascii ''_target_tables_'' @ domain @ ascii ''.json''
      in case write_config_file E fs0 domain area target_tables_config_filename
                (TargetTablesFile target_tables_dict) of
        Inl e \<Rightarrow> (fs0, Inl e)
      | Inr fs1 \<Rightarrow>
     (let original_source_tables_schema_dict = source_tables_schema_dict
      in case source_schema_loop E domain area mapping_file_df fs1
                [target_tables_config_filename] source_tables_schema_dict of
        (fs2, Inl e) \<Rightarrow> (fs2, Inl e)
      | (fs2, Inr out2) \<Rightarrow>
     (case generate_target_schema_config E domain area original_source_tables_schema_dict
             mapping_file_df of
        Inl e \<Rightarrow> (fs2, Inl e)
      | Inr target_schema_config_dict \<Rightarrow>
     (case write_configs_loop E domain area (ascii ''_schema_'') fs2 out2
             (map (\<lambda>(t, c). (t, TargetSchemaFile c)) target_schema_config_dict) of
        (fs3, Inl e) \<Rightarrow> (fs3, Inl e)
      | (fs3, Inr out3) \<Rightarrow>
     (case generate_pipeline_config domain area mapping_file_df of
        Inl e \<Rightarrow> (fs3, Inl e)
      | Inr pipeline_config_dict \<Rightarrow>
     (case write_configs_loop E domain area (ascii ''_pipeline_'') fs3 out3
             (map (\<lambda>(t, c). (t, PipelineFile c)) pipeline_config_dict) of
        (fs4, Inl e) \<Rightarrow> (fs4, Inl e)
      | (fs4, Inr out4) \<Rightarrow>
     (case generate_mapping_config E domain area original_source_tables_schema_dict
             mapping_file_df of
        Inl e \<Rightarrow> (fs4, Inl e)
      | Inr mapping_config_dict \<Rightarrow>
          write_configs_loop E domain area (ascii ''_map_'') fs4 out4
            (map (\<lambda>(t, c). (t, MappingFile c)) mapping_config_dict)))))))))"

definition process_mapping_file ::
  "env \<Rightarrow> pystr \<Rightarrow> pystr \<Rightarrow> pystr \<Rightarrow> dataframe \<Rightarrow> (pystr \<times> source_schema) list \<Rightarrow> files \<Rightarrow>
     files \<times> (error + pystr list)" where
  "process_mapping_file E mode domain target_data_area mapping_file_df
     source_tables_schema_dict fs =
     (case process_try E domain target_data_area mapping_file_df source_tables_schema_dict fs of
        (fs', Inl e) \<Rightarrow> (fs', Inl (ProcessError e))
      | (fs', Inr output_config_files) \<Rightarrow> (fs', Inr output_config_files))"

section \<open>main.py\<close>

definition main ::
  "env \<Rightarrow> files \<Rightarrow> pystr \<Rightarrow> pystr \<Rightarrow> pystr \<Rightarrow> pystr \<Rightarrow> pystr \<Rightarrow>
     files \<times> (error + pystr list)" where
  "main E fs input_file domain target file_type mode =
     (case validate_mapping_file E input_file domain target file_type of
        Inl e \<Rightarrow> (fs, Inl e)
      | Inr (mapping_file_df, source_tables_schema_dict) \<Rightarrow>
          if df_rows mapping_file_df = [] then (fs, Inl (MappingFileEmpty input_file))
          else if source_tables_schema_dict = [] then (fs, Inl SourceSchemaDictEmpty)
          else process_mapping_file E mode domain target mapping_file_df
                 source_tables_schema_dict fs)"

section \<open>Example inputs\<close>

text \<open>
  Rows of a mapping file: \<open>blank_row\<close> has every cell missing, \<open>mapping_row\<close> maps a
  source column to a target column and is not a business key.
\<close>

definition blank_row :: row where
  "blank_row =
     \<lparr>source_table_name = NaN, source_column_name = NaN, target_table_name = NaN,
      target_column_name = NaN, order_by = NaN, partition_by = NaN, is_business_key = NaN,
      data_type = NaN, default_value = NaN, transformation_function = NaN\<rparr>"

definition mapping_row :: "string \<Rightarrow> string \<Rightarrow> string \<Rightarrow> string \<Rightarrow> row" where
  "mapping_row st sc tt tc =
     blank_row\<lparr>source_table_name := Str (ascii st), source_column_name := Str (ascii sc),
       target_table_name := Str (ascii tt), target_column_name := Str (ascii tc),
       is_business_key := Str (ascii ''N'')\<rparr>"

definition landing_headers :: "pystr list" where
  "landing_headers =
     [ascii ''Source Table Name'', ascii ''Source Column Name'',
      ascii ''Target Table Name'', ascii ''Target Column Name'']"

definition all_headers :: "pystr list" where
  "all_headers =
     landing_headers @
     [ascii ''Order By'', ascii ''Partition By'', ascii ''Is Business Key'',
      ascii ''Data Type'', ascii ''Default Value'', ascii ''Transformation Function'']"

text \<open>The source table \<open>ORDERS\<close> with the columns \<open>id\<close> and \<open>name\<close>.\<close>

definition orders_columns :: "column list" where
  "orders_columns =
     [\<lparr>col_name = ascii ''id'', col_type = ascii ''int''\<rparr>,
      \<lparr>col_name = ascii ''name'', col_type = ascii ''varchar''\<rparr>]"

definition orders_schema :: source_schema where
  "orders_schema =
     \<lparr>ss_domain = ascii ''sales'', ss_table_name = ascii ''ORDERS'',
      ss_columns = orders_columns\<rparr>"

definition example_audit :: "column list" where
  "example_audit = [\<lparr>col_name = ascii ''LoadedAt'', col_type = ascii ''timestamp''\<rparr>]"

text \<open>
  A sort of rows by one column for the example environment: by value when the keys are
  all numbers or all strings, equal keys in row order, and a \<open>TypeError\<close> when they mix.
\<close>

fun number_of :: "cell \<Rightarrow> rat option" where
  "number_of (IntV i) = Some (of_int i)"
| "number_of (FloatV x) = Some x"
| "number_of _ = None"

fun string_of :: "cell \<Rightarrow> pystr option" where
  "string_of (Str s) = Some s"
| "string_of _ = None"

definition example_sort_values :: "(row \<Rightarrow> cell) \<Rightarrow> row list \<Rightarrow> error + row list" where
  "example_sort_values field rs =
     (if \<forall>r\<in>set rs. number_of (field r) \<noteq> None
      then Inr (sort_key (\<lambda>r. the (number_of (field r))) rs)
      else if \<forall>r\<in>set rs. string_of (field r) \<noteq> None
      then Inr (sort_key (\<lambda>r. the (string_of (field r))) rs)
      else Inl TypeError)"

text \<open>Two transformation functions and what the JSON parser returns for them.\<close>

definition const_function :: pystr where
  "const_function = ascii ''{\"function\":\"const\",\"params\":{\"value\":0}}''"

definition const_object :: "(pystr \<times> json) list" where
  "const_object =
     [(ascii ''function'', JString (ascii ''const'')),
      (ascii ''params'', JObject [(ascii ''value'', JNumber 0)])]"

fun example_str :: "cell \<Rightarrow> pystr" where
  "example_str NaN = ascii ''nan''"
| "example_str NoneV = ascii ''None''"
| "example_str _ = ascii ''0''"

text \<open>
  The example environment: the file \<open>mapping.csv\<close> holds the given frame, the database
  has the table \<open>ORDERS\<close>, no schema file has been written, the tiers bronze and silver
  have one audit column, the \<open>.str\<close> accessor takes a column that holds a string,
  the JSON parser is given at the two strings above, every folder can be made and every
  file written, and the text of a missing value is as Python prints it (no example
  prints a number).
\<close>

definition example_env :: "dataframe \<Rightarrow> env" where
  "example_env df =
     \<lparr>path_exists = (\<lambda>p. p = ascii ''mapping.csv''),
      read_excel = (\<lambda>p. Inl (FileNotFoundError p)),
      read_csv = (\<lambda>p. Inr df),
      get_sql_table_schema =
        (\<lambda>t. if t = ascii ''ORDERS'' then Inr orders_columns else Inr []),
      load_schema_file = (\<lambda>p. Inl (FileNotFoundError (last p))),
      load_mint_data_areas =
        Inr (map_of [(ascii ''bronze'', AuditColumns example_audit),
                     (ascii ''silver'', AuditColumns example_audit)]),
      str_accessor = (\<lambda>header cs. \<exists>c\<in>set cs. isinstance_str c),
      sort_values = example_sort_values,
      json_loads =
        map_of [(ascii ''0'', JNumber 0), (const_function, JObject const_object)],
      makedirs = (\<lambda>p. True),
      write_file = (\<lambda>p. True),
      str_of_value = example_str\<rparr>"

text \<open>The mapping files of the examples.\<close>

definition silver_four :: dataframe where
  "silver_four =
     \<lparr>df_columns = landing_headers,
      df_rows = [mapping_row ''ORDERS'' ''id'' ''DimOrders'' ''OrderId'']\<rparr>"




definition null_source_first :: dataframe where
  "null_source_first =
     \<lparr>df_columns = all_headers,
      df_rows =
        [blank_row\<lparr>target_table_name := Str (ascii ''DimOrders''),
           target_column_name := Str (ascii ''LoadFlag''), data_type := Str (ascii ''int'')\<rparr>,
         mapping_row ''ORDERS'' ''id'' ''DimOrders'' ''OrderId'']\<rparr>"

definition with_null_source :: dataframe where
  "with_null_source =
     \<lparr>df_columns = all_headers,
      df_rows =
        [mapping_row ''ORDERS'' ''email'' ''DimOrders'' ''Email'',
         blank_row\<lparr>target_table_name := Str (ascii ''DimOrders''),
           target_column_name := Str (ascii ''LoadFlag''), data_type := Str (ascii ''int'')\<rparr>]\<rparr>"

definition padded_source :: dataframe where
  "padded_source =
     \<lparr>df_columns = all_headers,
      df_rows = [mapping_row ''ORDERS '' ''email'' ''DimOrders'' ''Email'']\<rparr>"

definition merge_key_target :: dataframe where
  "merge_key_target =
     \<lparr>df_columns = all_headers,
      df_rows = [mapping_row ''ORDERS'' ''name'' ''DimOrders'' ''MergeKey'']\<rparr>"

definition silver_orders :: dataframe where
  "silver_orders =
     \<lparr>df_columns = all_headers,
      df_rows = [mapping_row ''ORDERS'' ''name'' ''DimOrders'' ''OrderName'']\<rparr>"




definition landing_df :: dataframe where
  "landing_df =
     \<lparr>df_columns = landing_headers,
      df_rows = [mapping_row ''ORDERS'' ''id'' ''DimOrders'' ''OrderId'']\<rparr>"

definition three_headers :: dataframe where
  "three_headers =
     \<lparr>df_columns =
        [ascii ''Source Table Name'', ascii ''Source Column Name'', ascii ''Target Table Name''],
      df_rows = [mapping_row ''ORDERS'' ''id'' ''DimOrders'' ''OrderId'']\<rparr>"

text \<open>The equations that evaluate the sanitizer and the frames on the examples.\<close>

lemmas cleanse_eval =
  cleanse_column_list_def cleanse_try_def drop_empty_def drop_none_def ascii_def
  replace_invisible_def replace_char_def strip_def isspace_def

lemmas frame_eval =
  all_headers_def landing_headers_def mapping_row_def blank_row_def first_item_def
  unique_def rows_where_def series_def example_env_def Let_def

lemmas load_eval =
  validate_mapping_file_def load_file_to_dataframe_def endswith_def df_empty_def
  get_required_columns_list_def MAP_FILE_REQUIRED_COLUMNS_MAP_def

section \<open>Facts about the sanitizer\<close>

lemma set_dedup: "set (dedup seen xs) = set xs - seen"
  by (induction xs arbitrary: seen) auto

lemma distinct_dedup: "distinct (dedup seen xs)"
  by (induction xs arbitrary: seen) (auto simp: set_dedup)

lemma dedup_Nil_iff: "dedup {} xs = [] \<longleftrightarrow> xs = []"
  using set_dedup [of "{}" xs] by (cases xs) auto

lemma strs_map: "\<forall>c\<in>set cs. isinstance_str c \<Longrightarrow> \<exists>ss. cs = map Str ss"
proof (induction cs)
  case Nil
  show ?case by simp
next
  case (Cons c cs)
  then obtain s where c: "c = Str s" by (cases c) auto
  from Cons obtain ss where "cs = map Str ss" by auto
  with c have "c # cs = map Str (s # ss)" by simp
  then show ?case by (rule exI [where x = "s # ss"])
qed

lemma drop_empty_strs: "drop_empty (map Str ss) = map Str (filter (\<lambda>s. s \<noteq> []) ss)"
  by (induction ss) (auto simp: drop_empty_def)

lemma drop_nan_strs: "\<forall>c\<in>set cs. isinstance_str c \<Longrightarrow> drop_nan cs = Inr cs"
proof (induction cs)
  case Nil
  show ?case by simp
next
  case (Cons c cs)
  then obtain s where "c = Str s" by (cases c) auto
  with Cons show ?case by simp
qed

lemma replace_all_strs:
  "replace_all (map Str ss) = Inr (map (\<lambda>s. Str (replace_invisible s)) ss)"
  by (induction ss) auto

lemma replace_all_Inr: "replace_all cs = Inr r \<Longrightarrow> \<forall>c\<in>set cs. isinstance_str c"
  by (induction cs arbitrary: r rule: replace_all.induct) (auto split: sum.splits)

lemma drop_none_strs: "drop_none (map (\<lambda>s. Str (f s)) ss) = map (\<lambda>s. Str (f s)) ss"
  by (induction ss) (auto simp: drop_none_def)

lemma strip_all_strs:
  "strip_all (map (\<lambda>s. Str (f s)) ss) = Inr (map (\<lambda>s. strip (f s)) ss)"
  by (induction ss) auto

text \<open>
  On a list of strings the sanitizer drops the empty ones, removes the four invisible
  characters from the others, strips them and keeps the first occurrence of each result.
\<close>

lemma cleanse_strs:
  "cleanse_column_list (map Str ss) =
     dedup {} (map (\<lambda>s. strip (replace_invisible s)) (filter (\<lambda>s. s \<noteq> []) ss))"
  by (simp add: cleanse_column_list_def cleanse_try_def drop_empty_strs drop_nan_strs
        replace_all_strs drop_none_strs strip_all_strs)

lemma cleanse_try_Inr:
  assumes "cleanse_try cs = Inr l"
  shows "\<exists>ss. l = dedup {} (map (\<lambda>s. strip (replace_invisible s)) ss)"
proof -
  from assms obtain l2 l3 l5 where
    l2: "drop_nan (drop_empty cs) = Inr l2" and l3: "replace_all l2 = Inr l3"
    and l5: "strip_all (drop_none l3) = Inr l5" and l: "l = dedup {} l5"
    by (auto simp: cleanse_try_def split: sum.splits)
  from replace_all_Inr [OF l3] obtain ss where ss: "l2 = map Str ss"
    using strs_map by blast
  with l3 have "l3 = map (\<lambda>s. Str (replace_invisible s)) ss"
    by (simp add: replace_all_strs)
  with l5 have "l5 = map (\<lambda>s. strip (replace_invisible s)) ss"
    by (simp add: drop_none_strs strip_all_strs)
  with l show ?thesis by blast
qed

lemma set_strip: "set (strip s) \<subseteq> set s"
proof -
  have "set (strip s) = set (dropWhile isspace (rev (dropWhile isspace s)))"
    by (simp add: strip_def)
  also have "\<dots> \<subseteq> set (rev (dropWhile isspace s))"
    by (auto dest: set_dropWhileD)
  also have "\<dots> \<subseteq> set s"
    by (auto dest: set_dropWhileD)
  finally show ?thesis .
qed

lemma set_replace_invisible:
  "set (replace_invisible s) = set s - {0xA0, 0x200B, 0x2000, 0x180E}"
  by (auto simp: replace_invisible_def replace_char_def)

lemma last_dropWhile: "dropWhile P xs \<noteq> [] \<Longrightarrow> last (dropWhile P xs) = last xs"
  by (metis last_appendR takeWhile_dropWhile_id)

lemma strip_ends:
  assumes "strip s \<noteq> []"
  shows "\<not> isspace (hd (strip s)) \<and> \<not> isspace (last (strip s))"
proof -
  define y where "y = dropWhile isspace s"
  define z where "z = dropWhile isspace (rev y)"
  have s: "strip s = rev z" by (simp add: strip_def y_def z_def)
  have z: "z \<noteq> []" using assms s by simp
  have y: "y \<noteq> []" using z by (auto simp: z_def)
  have "\<not> isspace (hd z)" using z unfolding z_def by (rule hd_dropWhile)
  then have l: "\<not> isspace (last (strip s))" using z by (simp add: s last_rev)
  have "last z = last (rev y)" using z unfolding z_def by (rule last_dropWhile)
  also have "\<dots> = hd y" using y by (simp add: last_rev)
  finally have "hd (strip s) = hd y" using z by (simp add: s hd_rev)
  moreover have "\<not> isspace (hd y)" using y unfolding y_def by (rule hd_dropWhile)
  ultimately show ?thesis using l by simp
qed

text \<open>
  What the sanitizer does guarantee for every input list: no entry twice, none of the four
  invisible characters in an entry, and no whitespace at either end of an entry.
\<close>

lemma cleanse_output_facts:
  "distinct (cleanse_column_list cs) \<and>
   (\<forall>s\<in>set (cleanse_column_list cs).
      (\<forall>c\<in>set s. c \<notin> {0xA0, 0x200B, 0x2000, 0x180E}) \<and>
      (s \<noteq> [] \<longrightarrow> \<not> isspace (hd s) \<and> \<not> isspace (last s)))"
proof (cases "cleanse_try cs")
  case (Inl e)
  then show ?thesis by (simp add: cleanse_column_list_def)
next
  case (Inr l)
  then obtain ss where l: "l = dedup {} (map (\<lambda>s. strip (replace_invisible s)) ss)"
    using cleanse_try_Inr by blast
  have c: "cleanse_column_list cs = l"
    using Inr by (simp add: cleanse_column_list_def)
  have "\<forall>c\<in>set s. c \<notin> {0xA0, 0x200B, 0x2000, 0x180E}" if "s \<in> set l" for s
  proof -
    from that l obtain s' where "s = strip (replace_invisible s')"
      by (auto simp: set_dedup)
    then have "set s \<subseteq> set s' - {0xA0, 0x200B, 0x2000, 0x180E}"
      using set_strip [of "replace_invisible s'"] by (simp add: set_replace_invisible)
    then show ?thesis by blast
  qed
  moreover have "s \<noteq> [] \<longrightarrow> \<not> isspace (hd s) \<and> \<not> isspace (last s)" if "s \<in> set l" for s
  proof -
    from that l obtain s' where "s = strip (replace_invisible s')"
      by (auto simp: set_dedup)
    then show ?thesis using strip_ends by blast
  qed
  ultimately show ?thesis unfolding c using l by (simp add: distinct_dedup)
qed

text \<open>
  An entry that is not a string, be it \<open>None\<close>, a missing value or a number, makes the
  sanitizer return the empty list.
\<close>

lemma drop_nan_Inr: "drop_nan cs = Inr r \<Longrightarrow> r = cs"
  by (induction cs arbitrary: r) (auto split: if_splits sum.splits)

lemma cleanse_non_string:
  assumes "c \<in> set cs" and "\<not> isinstance_str c"
  shows "cleanse_column_list cs = []"
proof (cases "cleanse_try cs")
  case (Inl e)
  then show ?thesis by (simp add: cleanse_column_list_def)
next
  case (Inr l)
  then obtain l2 l3 where "drop_nan (drop_empty cs) = Inr l2"
    and l3: "replace_all l2 = Inr l3"
    by (auto simp: cleanse_try_def split: sum.splits)
  then have "l2 = drop_empty cs" using drop_nan_Inr by blast
  with replace_all_Inr [OF l3] have "\<forall>c\<in>set (drop_empty cs). isinstance_str c"
    by simp
  moreover have "c \<in> set (drop_empty cs)"
    using assms by (auto simp: drop_empty_def)
  ultimately show ?thesis using assms(2) by blast
qed

lemma cleanse_unique_nonempty:
  assumes "\<forall>c\<in>set cs. isinstance_str c" and "\<exists>c\<in>set cs. c \<noteq> Str []"
  shows "cleanse_column_list (unique cs) \<noteq> []"
proof -
  have "\<forall>c\<in>set (unique cs). isinstance_str c"
    using assms(1) by (simp add: unique_def set_dedup)
  then obtain ss where ss: "unique cs = map Str ss"
    using strs_map by blast
  from assms(2) obtain c where c: "c \<in> set cs" "c \<noteq> Str []" by blast
  then have "c \<in> set (map Str ss)"
    using ss [symmetric] by (simp add: unique_def set_dedup)
  then obtain s where "s \<in> set ss" "s \<noteq> []" using c(2) by auto
  then have "filter (\<lambda>s. s \<noteq> []) ss \<noteq> []"
    by (auto simp: filter_empty_conv)
  then show ?thesis by (simp add: ss cleanse_strs dedup_Nil_iff)
qed

section \<open>Facts about the loops\<close>

lemma set_update_subset: "set (AList.update k v al) \<subseteq> insert (k, v) (set al)"
  by (induction al) auto




lemma target_columns_loop_result:
  "target_columns_loop E headers schema table_rows init rs = Inr cols \<Longrightarrow>
     \<exists>new. cols = init @ new \<and>
       (\<forall>c\<in>set new. \<exists>r\<in>set rs. target_column_schema headers schema r = Inr c)"
proof (induction rs arbitrary: table_rows init)
  case Nil
  then show ?case by simp
next
  case (Cons r rs)
  from Cons.prems obtain table_rows' c where
    c: "target_column_schema headers schema r = Inr c"
    and rest: "target_columns_loop E headers schema table_rows' (init @ [c]) rs = Inr cols"
    by (auto split: sum.splits)
  from Cons.IH [OF rest] obtain new where
    new: "cols = (init @ [c]) @ new"
      "\<forall>c\<in>set new. \<exists>r\<in>set rs. target_column_schema headers schema r = Inr c"
    by blast
  have "cols = init @ (c # new)" using new(1) by simp
  moreover have
    "\<forall>c'\<in>set (c # new). \<exists>r'\<in>set (r # rs). target_column_schema headers schema r' = Inr c'"
    using c new(2) by auto
  ultimately show ?case by blast
qed

lemma target_column_schema_name:
  "target_column_schema headers schema r = Inr c \<Longrightarrow>
     first_item (cleanse_column_list [target_column_name r]) = Inr (col_name c)"
  by (auto simp: target_column_schema_def split: sum.splits if_splits)

lemma target_tables_loop_entries:
  "target_tables_loop E domain area sd df acc ts = Inr cfg \<Longrightarrow> (t, d) \<in> set cfg \<Longrightarrow>
     (t, d) \<in> set acc \<or> target_table_schema E domain area sd df t = Inr d"
proof (induction ts arbitrary: acc)
  case Nil
  then show ?case by simp
next
  case (Cons t' ts)
  from Cons.prems(1) obtain h where
    h: "target_table_schema E domain area sd df t' = Inr h"
    and rest: "target_tables_loop E domain area sd df (AList.update t' h acc) ts = Inr cfg"
    by (auto split: sum.splits)
  from Cons.IH [OF rest Cons.prems(2)]
  show ?case using set_update_subset [of t' h acc] h by auto
qed

text \<open>The shape of the schema that the body of the loop returns for one target table.\<close>

lemma target_table_schema_shape:
  assumes "target_table_schema E domain area sd df t = Inr d"
  shows "\<exists>srt prt schema new audit.
           get_data_area_audit_columns E area = Inr audit \<and>
           (\<forall>c\<in>set new. \<exists>r\<in>set (rows_where target_table_name t (df_rows df)).
                target_column_schema (df_columns df) schema r = Inr c) \<and>
           ts_sort_columns d =
             (if area = ascii ''silver'' \<or> area = ascii ''gold''
              then srt @ [ascii ''MergeKey''] else srt) \<and>
           ts_partition_columns d =
             (if area = ascii ''silver'' \<or> area = ascii ''gold''
              then prt else prt @ [ascii ''IngestDate'']) \<and>
           ts_columns d =
             (if area = ascii ''silver'' \<or> area = ascii ''gold''
              then [\<lparr>col_name = ascii ''MergeKey'', col_type = ascii ''string''\<rparr>]
              else []) @ new @ audit"
proof -
  let ?rows = "rows_where target_table_name t (df_rows df)"
  let ?init = "if area = ascii ''silver'' \<or> area = ascii ''gold''
               then [\<lparr>col_name = ascii ''MergeKey'', col_type = ascii ''string''\<rparr>] else []"
  from assms obtain schema srt prt cols audit where
    loop: "target_columns_loop E (df_columns df) schema ?rows ?init ?rows = Inr cols"
    and audit: "get_data_area_audit_columns E area = Inr audit"
    and d: "d = \<lparr>ts_domain = domain, ts_table_name = t,
               ts_sort_columns =
                 (if area = ascii ''silver'' \<or> area = ascii ''gold''
                  then srt @ [ascii ''MergeKey''] else srt),
               ts_partition_columns =
                 (if area = ascii ''silver'' \<or> area = ascii ''gold''
                  then prt else prt @ [ascii ''IngestDate'']),
               ts_columns = cols @ audit\<rparr>"
    unfolding target_table_schema_def Let_def
    by (auto split: sum.splits if_splits)
  from target_columns_loop_result [OF loop] obtain new where
    "cols = ?init @ new"
    "\<forall>c\<in>set new. \<exists>r\<in>set ?rows. target_column_schema (df_columns df) schema r = Inr c"
    by blast
  with audit d show ?thesis
    by (intro exI [of _ srt] exI [of _ prt] exI [of _ schema] exI [of _ new]
          exI [of _ audit]) simp
qed

lemma landing_zone_unresolved:
  "generate_source_schema_config E domain (ascii ''landing-zone'') t
     = Inl (InvalidTargetDataArea (ascii ''landing-zone''))"
  by (simp add: generate_source_schema_config_def TARGET_SOURCE_AREA_MAP_def ascii_def)

lemma required_landing_zone:
  "get_required_columns_list (ascii ''landing-zone'') = Inr landing_headers"
  by (simp add: get_required_columns_list_def MAP_FILE_REQUIRED_COLUMNS_MAP_def
        landing_headers_def ascii_def)

text \<open>
  For a tier that has an entry in the table of required columns, a mapping file that
  lacks one of them is refused with the set of the columns it lacks.
\<close>

lemma validate_missing_columns:
  assumes "load_file_to_dataframe E mapping_file file_type = Inr df"
    and "MAP_FILE_REQUIRED_COLUMNS_MAP area = Some required"
    and "set required - set (df_columns df) \<noteq> {}"
  shows "validate_mapping_file E mapping_file domain area file_type
           = Inl (MissingRequiredColumns (set required - set (df_columns df)))"
  using assms by (simp add: validate_mapping_file_def get_required_columns_list_def)

text \<open>
  The tiers silver and gold have no entry in the table of required columns, and for a
  tier without an entry validation ends with the invalid-area error as soon as the file
  has loaded.
\<close>

lemma unlisted_tiers:
  "MAP_FILE_REQUIRED_COLUMNS_MAP (ascii ''silver'') = None"
  "MAP_FILE_REQUIRED_COLUMNS_MAP (ascii ''gold'') = None"
  by (simp_all add: MAP_FILE_REQUIRED_COLUMNS_MAP_def ascii_def)

lemma validate_unlisted_tier:
  assumes "MAP_FILE_REQUIRED_COLUMNS_MAP area = None"
  shows "validate_mapping_file E mapping_file domain area file_type =
           (case load_file_to_dataframe E mapping_file file_type of
              Inl e \<Rightarrow> Inl e
            | Inr df \<Rightarrow> Inl (InvalidTargetDataArea area))"
  using assms
  by (simp add: validate_mapping_file_def get_required_columns_list_def split: sum.splits)

text \<open>
  A target table whose first row has no source table gets no schema, whatever its other
  rows say.
\<close>

lemma target_table_schema_null_first:
  assumes "rows_where target_table_name t (df_rows df) = r # rs"
    and "isna (source_table_name r)"
  shows "target_table_schema E domain area sd df t = Inl KeyError"
proof -
  have "unique (map source_table_name (r # rs)) =
          source_table_name r # dedup {source_table_name r} (map source_table_name rs)"
    by (simp add: unique_def)
  moreover have "schema_lookup sd (source_table_name r) = Inl KeyError"
    using assms(2) by (cases "source_table_name r") (simp_all add: schema_lookup_def)
  ultimately show ?thesis
    using assms(1) by (simp add: target_table_schema_def Let_def first_item_def)
qed

text \<open>
  For the tier landing-zone no schema can be resolved, so a validation that returns has
  resolved none and returns the empty dictionary.
\<close>

lemma resolve_landing_zone:
  "resolve_schemas E domain (ascii ''landing-zone'') d ts = Inr d' \<Longrightarrow> ts = [] \<and> d' = d"
  by (cases ts) (auto simp: landing_zone_unresolved)

lemma validate_landing_zone_empty_dict:
  assumes "validate_mapping_file E mapping_file domain (ascii ''landing-zone'') file_type
             = Inr (df, d)"
  shows "d = []"
proof -
  from assms obtain ts where
    "resolve_schemas E domain (ascii ''landing-zone'') [] ts = Inr d"
    by (auto simp: validate_mapping_file_def Let_def split: sum.splits if_splits)
  then show ?thesis using resolve_landing_zone by blast
qed

lemma main_landing_zone_fails:
  "\<exists>e. main E fs input_file domain (ascii ''landing-zone'') file_type mode = (fs, Inl e)"
proof (cases "validate_mapping_file E input_file domain (ascii ''landing-zone'') file_type")
  case (Inl e)
  then show ?thesis by (simp add: main_def)
next
  case (Inr p)
  obtain df d where p: "p = (df, d)" by (cases p)
  with Inr have "d = []" using validate_landing_zone_empty_dict by blast
  with Inr p show ?thesis by (simp add: main_def)
qed

section \<open>The claims\<close>

subsection \<open>C1: required columns by tier\<close>

text \<open>
  Claim C1. For each of the tiers landing-zone, bronze, silver and gold, validation
  compares the headers of the mapping file with the tier's required columns and fails
  with the set of the missing ones. The table of required columns has entries for
  landing-zone and bronze only, the key \<open>'bronze'\<close> being written twice: for silver and
  gold the lookup of the required columns fails with the invalid-area error before any
  header is compared (\<open>validate_unlisted_tier\<close>), while for landing-zone and bronze
  the missing columns are reported (\<open>validate_missing_columns\<close>). Here a silver and a
  gold run on a file that has only the four landing-zone columns.
\<close>

theorem validate_silver_gold_invalid_area:
  "validate_mapping_file (example_env silver_four) (ascii ''mapping.csv'') (ascii ''sales'')
     (ascii ''silver'') (ascii ''csv'') = Inl (InvalidTargetDataArea (ascii ''silver'')) \<and>
   validate_mapping_file (example_env silver_four) (ascii ''mapping.csv'') (ascii ''sales'')
     (ascii ''gold'') (ascii ''csv'') = Inl (InvalidTargetDataArea (ascii ''gold''))"
  by (simp add: load_eval silver_four_def example_env_def landing_headers_def ascii_def)

subsection \<open>C2: the sanitizer on the example of the specification\<close>

text \<open>
  Claim C2. The sanitizer applied to \<open>["A ", " A", "", None, "B"]\<close> should return
  \<open>["A", "B"]\<close>. The \<open>None\<close> entry reaches the \<open>replace\<close> step, which comes before
  the step that drops \<open>None\<close>; the attribute error is caught and the function returns the
  empty list, as it does for every list with an entry that is not a string
  (\<open>cleanse_non_string\<close>).
\<close>

theorem cleanse_spec_example_returns_empty:
  "cleanse_column_list
     [Str (ascii ''A ''), Str (ascii '' A''), Str [], NoneV, Str (ascii ''B'')] = []"
  by (simp add: cleanse_column_list_def cleanse_try_def drop_empty_def ascii_def)

subsection \<open>C3: the MergeKey column of a mapping\<close>




subsection \<open>C4: pipeline linkages\<close>




subsection \<open>C5: the source table of a target table\<close>

text \<open>
  Claim C5. The target schema generator should take, for each target table, the first
  source table among its rows that is not missing, and use the schema resolved for it.
  The code takes the first value of the column, missing or not. Here the first row of
  \<open>DimOrders\<close> has no source (it declares a data type) and the second maps
  \<open>ORDERS.id\<close>: the missing value is looked up in the dictionary of schemas and the
  generator fails, although the schema of \<open>ORDERS\<close> is there
  (\<open>target_table_schema_null_first\<close> has the general case).
\<close>

theorem target_schema_null_first_source_fails:
  "generate_target_schema_config (example_env null_source_first) (ascii ''sales'')
     (ascii ''bronze'') [(ascii ''ORDERS'', orders_schema)] null_source_first
     = Inl (TargetSchemaError KeyError)"
  by (simp add: generate_target_schema_config_def target_table_schema_def
        null_source_first_def schema_lookup_def frame_eval cleanse_eval)

subsection \<open>C6: source columns that the source schema does not have\<close>

text \<open>
  Claim C6. A mapping file with a row whose source column is not in the resolved schema
  of the row's source table should fail validation with an error that names the column,
  and the run should write no file. The column \<open>email\<close> is not a column of \<open>ORDERS\<close>,
  and validation accepts both files below. In the first, another row has no source
  table: the float that marks the missing value makes the sanitizer return the empty list
  of source tables, so no schema is resolved and no column is checked; the run then stops
  on the empty dictionary of schemas. In the second the source table is written with a
  trailing blank: the schema is resolved for the cleansed name, the rows are selected by
  the cell as written, and none is found; the run goes on, writes the list of target
  tables and fails when it looks for the target table of \<open>ORDERS\<close>.
\<close>

theorem validate_accepts_absent_source_column:
  "ascii ''email'' \<notin> set (map col_name orders_columns) \<and>
   validate_mapping_file (example_env with_null_source) (ascii ''mapping.csv'')
     (ascii ''sales'') (ascii ''bronze'') (ascii ''csv'') = Inr (with_null_source, []) \<and>
   main (example_env with_null_source) [] (ascii ''mapping.csv'') (ascii ''sales'')
     (ascii ''bronze'') (ascii ''csv'') (ascii ''debug'') = ([], Inl SourceSchemaDictEmpty) \<and>
   validate_mapping_file (example_env padded_source) (ascii ''mapping.csv'')
     (ascii ''sales'') (ascii ''bronze'') (ascii ''csv'')
     = Inr (padded_source, [(ascii ''ORDERS'', orders_schema)]) \<and>
   main (example_env padded_source) [] (ascii ''mapping.csv'') (ascii ''sales'')
     (ascii ''bronze'') (ascii ''csv'') (ascii ''debug'') =
     ([([OUTPUT_FOLDER, ascii ''domains'', ascii ''sales'', ascii ''bronze'',
         ascii ''bronze_target_tables_sales.json''],
        TargetTablesFile
          \<lparr>tt_action = ascii ''ingest'', tt_target_data_area = ascii ''bronze'',
           tt_config_storage_account = ascii ''mintetl[env]configeus'',
           tt_key_vault_name = ascii ''mintetl[env]keyvaulteus'',
           tt_target_table_list = [ascii ''DimOrders'']\<rparr>)],
      Inl (ProcessError IndexError))"
  by (simp add: main_def load_eval with_null_source_def padded_source_def orders_schema_def
        orders_columns_def generate_source_schema_config_def TARGET_SOURCE_AREA_MAP_def
        invalid_columns_of_def process_mapping_file_def process_try_def
        generate_target_table_config_def write_config_file_def OUTPUT_FOLDER_def
        frame_eval cleanse_eval)

subsection \<open>C7: what the sanitizer returns\<close>

text \<open>
  Claim C7. No list that the sanitizer returns should contain an empty string. The empty
  strings are dropped first and the entries are stripped afterwards, so an entry made of
  whitespace comes out as the empty string. (The other parts of the claim hold, see
  \<open>cleanse_output_facts\<close>.)
\<close>

theorem cleanse_keeps_empty_string:
  "cleanse_column_list [Str (ascii '' ''), Str (ascii ''A'')] = [[], ascii ''A'']"
  by (simp add: cleanse_eval)

subsection \<open>C8: MergeKey and IngestDate in a target schema\<close>

text \<open>
  Claim C8, amended. For the tiers silver and gold, every target schema that the
  generator returns has the \<open>MergeKey\<close> column of type string at the head of its
  columns and \<open>MergeKey\<close> at the end of its sort columns; it has no other column of
  that name unless a row of the table has the cleansed target column \<open>MergeKey\<close> or an
  audit column of the tier has that name. For every other tier, landing-zone and bronze
  among them, its partition columns end with \<open>IngestDate\<close>.
\<close>

theorem target_schema_merge_key_ingest_date:
  assumes gen: "generate_target_schema_config E domain area sd df = Inr cfg"
    and ent: "(t, d) \<in> set cfg"
  shows "if area = ascii ''silver'' \<or> area = ascii ''gold'' then
           (\<exists>cols. ts_columns d =
              \<lparr>col_name = ascii ''MergeKey'', col_type = ascii ''string''\<rparr> # cols) \<and>
           (\<exists>srt. ts_sort_columns d = srt @ [ascii ''MergeKey'']) \<and>
           ((\<forall>r\<in>set (rows_where target_table_name t (df_rows df)).
               first_item (cleanse_column_list [target_column_name r])
                 \<noteq> Inr (ascii ''MergeKey'')) \<and>
            (\<forall>audit. get_data_area_audit_columns E area = Inr audit \<longrightarrow>
               (\<forall>c\<in>set audit. col_name c \<noteq> ascii ''MergeKey'')) \<longrightarrow>
            length (filter (\<lambda>c. col_name c = ascii ''MergeKey'') (ts_columns d)) = 1)
         else (\<exists>prt. ts_partition_columns d = prt @ [ascii ''IngestDate''])"
proof -
  from gen obtain ts where "target_tables_loop E domain area sd df [] ts = Inr cfg"
    by (auto simp: generate_target_schema_config_def split: sum.splits)
  with ent have "target_table_schema E domain area sd df t = Inr d"
    using target_tables_loop_entries by fastforce
  from target_table_schema_shape [OF this] obtain srt prt schema new audit where
    audit: "get_data_area_audit_columns E area = Inr audit"
    and new: "\<forall>c\<in>set new. \<exists>r\<in>set (rows_where target_table_name t (df_rows df)).
                target_column_schema (df_columns df) schema r = Inr c"
    and srt: "ts_sort_columns d =
                (if area = ascii ''silver'' \<or> area = ascii ''gold''
                 then srt @ [ascii ''MergeKey''] else srt)"
    and prt: "ts_partition_columns d =
                (if area = ascii ''silver'' \<or> area = ascii ''gold''
                 then prt else prt @ [ascii ''IngestDate''])"
    and cols: "ts_columns d =
                (if area = ascii ''silver'' \<or> area = ascii ''gold''
                 then [\<lparr>col_name = ascii ''MergeKey'', col_type = ascii ''string''\<rparr>]
                 else []) @ new @ audit"
    by blast
  show ?thesis
  proof (cases "area = ascii ''silver'' \<or> area = ascii ''gold''")
    case False
    with prt show ?thesis by simp
  next
    case True
    have one: "length (filter (\<lambda>c. col_name c = ascii ''MergeKey'') (ts_columns d)) = 1"
      if rows: "\<forall>r\<in>set (rows_where target_table_name t (df_rows df)).
                  first_item (cleanse_column_list [target_column_name r])
                    \<noteq> Inr (ascii ''MergeKey'')"
      and aud: "\<forall>audit. get_data_area_audit_columns E area = Inr audit \<longrightarrow>
                  (\<forall>c\<in>set audit. col_name c \<noteq> ascii ''MergeKey'')"
    proof -
      have "\<forall>c\<in>set new. col_name c \<noteq> ascii ''MergeKey''"
        using new rows target_column_schema_name by metis
      then have "filter (\<lambda>c. col_name c = ascii ''MergeKey'') new = []"
        by (simp add: filter_empty_conv)
      moreover have "filter (\<lambda>c. col_name c = ascii ''MergeKey'') audit = []"
        using aud audit by (auto simp: filter_empty_conv)
      ultimately show ?thesis using cols True by simp
    qed
    from True cols srt one show ?thesis by simp
  qed
qed

text \<open>
  The theorem on a silver mapping of \<open>ORDERS.name\<close> to \<open>DimOrders.OrderName\<close>: the
  schema of \<open>DimOrders\<close> has the one \<open>MergeKey\<close> column, at its head, and its sort
  columns end with \<open>MergeKey\<close>.
\<close>

theorem target_schema_merge_key_witness:
  "\<exists>d. generate_target_schema_config (example_env silver_orders) (ascii ''sales'')
          (ascii ''silver'') [(ascii ''ORDERS'', orders_schema)] silver_orders
          = Inr [(ascii ''DimOrders'', d)] \<and>
        (\<exists>cols. ts_columns d =
           \<lparr>col_name = ascii ''MergeKey'', col_type = ascii ''string''\<rparr> # cols) \<and>
        (\<exists>srt. ts_sort_columns d = srt @ [ascii ''MergeKey'']) \<and>
        length (filter (\<lambda>c. col_name c = ascii ''MergeKey'') (ts_columns d)) = 1"
proof -
  let ?E = "example_env silver_orders"
  let ?d = "\<lparr>ts_domain = ascii ''sales'', ts_table_name = ascii ''DimOrders'',
            ts_sort_columns = [ascii ''MergeKey''], ts_partition_columns = [],
            ts_columns =
              [\<lparr>col_name = ascii ''MergeKey'', col_type = ascii ''string''\<rparr>,
               \<lparr>col_name = ascii ''OrderName'', col_type = ascii ''string''\<rparr>,
               \<lparr>col_name = ascii ''LoadedAt'', col_type = ascii ''timestamp''\<rparr>]\<rparr>"
  have gen: "generate_target_schema_config ?E (ascii ''sales'') (ascii ''silver'')
               [(ascii ''ORDERS'', orders_schema)] silver_orders
               = Inr [(ascii ''DimOrders'', ?d)]"
    by (simp add: generate_target_schema_config_def target_table_schema_def
          silver_orders_def schema_lookup_def sorted_target_columns_def
          example_sort_values_def strip_name_columns_def strip_column_def
          target_column_schema_def orders_schema_def orders_columns_def
          PANDAS_DATATYPE_MAP_def get_data_area_audit_columns_def example_audit_def
          frame_eval cleanse_eval)
  have ent: "(ascii ''DimOrders'', ?d) \<in> set [(ascii ''DimOrders'', ?d)]"
    by simp
  have rows: "\<forall>r\<in>set (rows_where target_table_name (ascii ''DimOrders'')
                          (df_rows silver_orders)).
                first_item (cleanse_column_list [target_column_name r])
                  \<noteq> Inr (ascii ''MergeKey'')"
    by (simp add: silver_orders_def frame_eval cleanse_eval)
  have aud: "\<forall>audit. get_data_area_audit_columns ?E (ascii ''silver'') = Inr audit \<longrightarrow>
               (\<forall>c\<in>set audit. col_name c \<noteq> ascii ''MergeKey'')"
    by (simp add: get_data_area_audit_columns_def example_env_def example_audit_def
          ascii_def)
  from target_schema_merge_key_ingest_date [OF gen ent] rows aud
  have "(\<exists>cols. ts_columns ?d =
           \<lparr>col_name = ascii ''MergeKey'', col_type = ascii ''string''\<rparr> # cols) \<and>
        (\<exists>srt. ts_sort_columns ?d = srt @ [ascii ''MergeKey'']) \<and>
        length (filter (\<lambda>c. col_name c = ascii ''MergeKey'') (ts_columns ?d)) = 1"
    by simp
  with gen show ?thesis by blast
qed

text \<open>
  The claim as it was stated fails on a silver mapping of \<open>ORDERS.name\<close> to a target
  column that is itself called \<open>MergeKey\<close>: the schema has two \<open>MergeKey\<close> columns of
  type string.
\<close>

theorem target_schema_two_merge_keys:
  "generate_target_schema_config (example_env merge_key_target) (ascii ''sales'')
     (ascii ''silver'') [(ascii ''ORDERS'', orders_schema)] merge_key_target =
   Inr [(ascii ''DimOrders'',
         \<lparr>ts_domain = ascii ''sales'', ts_table_name = ascii ''DimOrders'',
          ts_sort_columns = [ascii ''MergeKey''], ts_partition_columns = [],
          ts_columns =
            [\<lparr>col_name = ascii ''MergeKey'', col_type = ascii ''string''\<rparr>,
             \<lparr>col_name = ascii ''MergeKey'', col_type = ascii ''string''\<rparr>,
             \<lparr>col_name = ascii ''LoadedAt'', col_type = ascii ''timestamp''\<rparr>]\<rparr>)]"
  by (simp add: generate_target_schema_config_def target_table_schema_def
        merge_key_target_def schema_lookup_def sorted_target_columns_def
        example_sort_values_def strip_name_columns_def strip_column_def
        target_column_schema_def orders_schema_def orders_columns_def
        PANDAS_DATATYPE_MAP_def get_data_area_audit_columns_def example_audit_def
        frame_eval cleanse_eval)

subsection \<open>C9: rows with a transformation function\<close>




subsection \<open>C10: the tier landing-zone\<close>

text \<open>
  Claim C10, amended. For the target tier landing-zone, a mapping file that loads, has
  the four required columns, and whose source table cells are all strings, one of them
  not empty, makes validation fail with the invalid-area error, raised when the schema of
  the first source table is resolved: the table of upstream tiers has no entry for
  landing-zone. And whatever the mapping file, a run for landing-zone ends with an error
  before the artifacts are generated, and writes no file.
\<close>

theorem landing_zone_invalid_target_area:
  "(load_file_to_dataframe E mapping_file file_type = Inr df \<and>
    set [ascii ''Source Table Name'', ascii ''Source Column Name'',
         ascii ''Target Table Name'', ascii ''Target Column Name''] \<subseteq> set (df_columns df) \<and>
    (\<forall>r\<in>set (df_rows df). isinstance_str (source_table_name r)) \<and>
    (\<exists>r\<in>set (df_rows df). source_table_name r \<noteq> Str []) \<longrightarrow>
    validate_mapping_file E mapping_file domain (ascii ''landing-zone'') file_type
      = Inl (InvalidTargetDataArea (ascii ''landing-zone''))) \<and>
   (\<exists>e. main E fs mapping_file domain (ascii ''landing-zone'') file_type mode = (fs, Inl e))"
proof (intro conjI impI)
  assume a: "load_file_to_dataframe E mapping_file file_type = Inr df \<and>
    set [ascii ''Source Table Name'', ascii ''Source Column Name'',
         ascii ''Target Table Name'', ascii ''Target Column Name''] \<subseteq> set (df_columns df) \<and>
    (\<forall>r\<in>set (df_rows df). isinstance_str (source_table_name r)) \<and>
    (\<exists>r\<in>set (df_rows df). source_table_name r \<noteq> Str [])"
  then have load: "load_file_to_dataframe E mapping_file file_type = Inr df"
    and cols: "set [ascii ''Source Table Name'', ascii ''Source Column Name'',
                    ascii ''Target Table Name'', ascii ''Target Column Name'']
                 \<subseteq> set (df_columns df)"
    and strs: "\<forall>r\<in>set (df_rows df). isinstance_str (source_table_name r)"
    and some: "\<exists>r\<in>set (df_rows df). source_table_name r \<noteq> Str []"
    by blast+
  let ?cs = "map source_table_name (df_rows df)"
  have "cleanse_column_list (unique ?cs) \<noteq> []"
    using strs some by (intro cleanse_unique_nonempty) auto
  then obtain t ts where ts: "cleanse_column_list (unique ?cs) = t # ts"
    by (cases "cleanse_column_list (unique ?cs)") auto
  have miss: "set landing_headers - set (df_columns df) = {}"
    using cols by (auto simp: landing_headers_def)
  have ser: "series df (ascii ''Source Table Name'') source_table_name = Inr ?cs"
    using cols by (simp add: series_def)
  show "validate_mapping_file E mapping_file domain (ascii ''landing-zone'') file_type
          = Inl (InvalidTargetDataArea (ascii ''landing-zone''))"
    unfolding validate_mapping_file_def load required_landing_zone
    by (simp add: miss ser ts landing_zone_unresolved)
next
  show "\<exists>e. main E fs mapping_file domain (ascii ''landing-zone'') file_type mode
          = (fs, Inl e)"
    by (rule main_landing_zone_fails)
qed

text \<open>
  The theorem on a landing-zone mapping file with the four required columns and one row,
  of the source table \<open>ORDERS\<close>.
\<close>

theorem landing_zone_invalid_target_area_witness:
  "validate_mapping_file (example_env landing_df) (ascii ''mapping.csv'') (ascii ''sales'')
     (ascii ''landing-zone'') (ascii ''csv'')
     = Inl (InvalidTargetDataArea (ascii ''landing-zone'')) \<and>
   (\<exists>e. main (example_env landing_df) [] (ascii ''mapping.csv'') (ascii ''sales'')
          (ascii ''landing-zone'') (ascii ''csv'') (ascii ''debug'') = ([], Inl e))"
proof -
  have load: "load_file_to_dataframe (example_env landing_df) (ascii ''mapping.csv'')
                (ascii ''csv'') = Inr landing_df"
    by (simp add: load_file_to_dataframe_def example_env_def endswith_def df_empty_def
          landing_df_def landing_headers_def ascii_def)
  have cols: "set [ascii ''Source Table Name'', ascii ''Source Column Name'',
                   ascii ''Target Table Name'', ascii ''Target Column Name'']
                \<subseteq> set (df_columns landing_df)"
    by (simp add: landing_df_def landing_headers_def)
  have strs: "\<forall>r\<in>set (df_rows landing_df). isinstance_str (source_table_name r)"
    by (simp add: landing_df_def mapping_row_def blank_row_def)
  have some: "\<exists>r\<in>set (df_rows landing_df). source_table_name r \<noteq> Str []"
    by (simp add: landing_df_def mapping_row_def blank_row_def ascii_def)
  from landing_zone_invalid_target_area
         [of "example_env landing_df" "ascii ''mapping.csv''" "ascii ''csv''" landing_df
            "ascii ''sales''" "[]" "ascii ''debug''"]
    load cols strs some
  show ?thesis by blast
qed

text \<open>
  The claim as it was stated fails on a landing-zone mapping file that names the source
  table \<open>ORDERS\<close> and lacks the column \<open>Target Column Name\<close>: the required columns
  are compared before any schema is resolved, and the error is the one for missing
  columns. It fails as well on a file with all the columns in which one row names
  \<open>ORDERS\<close> and another has no source table: the sanitizer returns no source table, no
  schema is resolved and validation returns.
\<close>

theorem landing_zone_missing_column_first:
  "map source_table_name (df_rows three_headers) = [Str (ascii ''ORDERS'')] \<and>
   validate_mapping_file (example_env three_headers) (ascii ''mapping.csv'')
     (ascii ''sales'') (ascii ''landing-zone'') (ascii ''csv'')
     = Inl (MissingRequiredColumns {ascii ''Target Column Name''}) \<and>
   map source_table_name (df_rows with_null_source) = [Str (ascii ''ORDERS''), NaN] \<and>
   validate_mapping_file (example_env with_null_source) (ascii ''mapping.csv'')
     (ascii ''sales'') (ascii ''landing-zone'') (ascii ''csv'')
     = Inr (with_null_source, [])"
  by (simp add: load_eval three_headers_def with_null_source_def frame_eval cleanse_eval)

end
